theory Spec2Isabelle
  imports Main "HOL-Library.Multiset"
begin

section \<open>Go values shared by both fetchers\<close>

text \<open>
  Go pointers that the source tests against \<open>nil\<close> are \<open>option\<close> values
  (\<open>None\<close> is \<open>nil\<close>). A slice is a list; a \<open>nil\<close> slice and an empty
  slice are both \<open>[]\<close>, as \<open>len\<close>, \<open>range\<close> and \<open>append\<close> do
  not tell them apart. Elements of the SDK's slices of pointers (\<open>[]*s3.Bucket\<close>,
  \<open>[]*s3.Grant\<close>, \<open>[]*s3.Tag\<close>) and the grantee of a grant are
  dereferenced by the source without a check; the model's types make them present.
\<close>

text \<open>
  Errors. \<open>AwsErr code message\<close> is a value implementing \<open>awserr.Error\<close>,
  \<open>PlainErr\<close> any other leaf error, \<open>TraceErr msg e\<close> the result of
  \<open>trace.Wrap(e, msg...)\<close> (the format string followed by its arguments, empty when
  no message is given), \<open>Aggregate es\<close> the result of \<open>trace.NewAggregate\<close>.
  A value of type \<open>go_error\<close> is a non-nil error; a possibly nil \<open>error\<close>
  is a \<open>go_error option\<close>.
\<close>

datatype go_error =
    AwsErr string string
  | PlainErr string
  | TraceErr "string list" go_error
  | Aggregate "go_error list"

text \<open>\<open>errors.As(err, &awsErr)\<close> followed by \<open>awsErr.Code()\<close>: the code of the
  first \<open>awserr.Error\<close> on the chain of \<open>err\<close>, if there is one.\<close>

fun errors_As_awserr :: "go_error \<Rightarrow> string option"
  and errors_As_awserr_first :: "go_error list \<Rightarrow> string option" where
  "errors_As_awserr (AwsErr code msg) = Some code"
| "errors_As_awserr (PlainErr msg) = None"
| "errors_As_awserr (TraceErr msg e) = errors_As_awserr e"
| "errors_As_awserr (Aggregate es) = errors_As_awserr_first es"
| "errors_As_awserr_first [] = None"
| "errors_As_awserr_first (e # es) =
     (case errors_As_awserr e of Some code \<Rightarrow> Some code | None \<Rightarrow> errors_As_awserr_first es)"

text \<open>\<open>trace.Wrap\<close> of a non-nil error (every call of the source is under
  \<open>err != nil\<close>).\<close>

definition trace_Wrap :: "go_error \<Rightarrow> string list \<Rightarrow> go_error" where
  "trace_Wrap err msg = TraceErr msg err"

text \<open>\<open>trace.NewAggregate(errs...)\<close>: \<open>nil\<close> when there is no error, else the
  aggregate of all of them in order. The slices the source passes hold non-nil errors
  only.\<close>

definition trace_NewAggregate :: "go_error list \<Rightarrow> go_error option" where
  "trace_NewAggregate errs = (if errs = [] then None else Some (Aggregate errs))"

definition aws_ToString :: "string option \<Rightarrow> string" where
  "aws_ToString p = (case p of None \<Rightarrow> [] | Some s \<Rightarrow> s)"

definition aws_ToBool :: "bool option \<Rightarrow> bool" where
  "aws_ToBool p = (case p of None \<Rightarrow> False | Some b \<Rightarrow> b)"

section \<open>aws-sync/s3.go: the data\<close>

type_synonym timestamp = nat

record AWSS3BucketACLGrantee =
  Id :: string
  DisplayName :: string
  Type :: string
  Uri :: string
  EmailAddress :: string

record AWSS3BucketACL =
  Grantee :: AWSS3BucketACLGrantee
  Permission :: string

record AWSTag =
  Key :: string
  Value :: "string option"

text \<open>\<open>accessgraphv1alpha.AWSS3BucketV1\<close>, the canonical snapshot of a bucket.\<close>

record AWSS3BucketV1 =
  Name :: string
  AccountId :: string
  PolicyDocument :: string
  IsPublic :: bool
  Acls :: "AWSS3BucketACL list"
  Tags :: "AWSTag list"
  LastSyncTime :: "timestamp option"

text \<open>The zero value \<open>&AWSS3BucketV1{}\<close>.\<close>

definition AWSS3BucketV1_zero :: AWSS3BucketV1 where
  "AWSS3BucketV1_zero =
     \<lparr>Name = [], AccountId = [], PolicyDocument = [], IsPublic = False,
      Acls = [], Tags = [], LastSyncTime = None\<rparr>"

record failedRequests =
  policyFailed :: bool
  failedPolicyStatus :: bool
  failedAcls :: bool
  failedTags :: bool
  headFailed :: bool

text \<open>\<open>var failedReqs failedRequests\<close>: every flag unset.\<close>

definition failedRequests_zero :: failedRequests where
  "failedRequests_zero =
     \<lparr>policyFailed = False, failedPolicyStatus = False, failedAcls = False,
      failedTags = False, headFailed = False\<rparr>"

text \<open>The SDK's records, as far as the source reads them.\<close>

record s3_Grantee =
  grantee_ID :: "string option"
  grantee_DisplayName :: "string option"
  grantee_Type :: "string option"
  grantee_URI :: "string option"
  grantee_EmailAddress :: "string option"

record s3_Grant =
  grant_Grantee :: s3_Grantee
  grant_Permission :: "string option"

record s3_Tag =
  tag_Key :: "string option"
  tag_Value :: "string option"

record s3_Bucket =
  bucket_Name :: "string option"

record GetBucketPolicyOutput =
  Policy :: "string option"

record s3_PolicyStatus =
  policy_IsPublic :: "bool option"

record GetBucketPolicyStatusOutput =
  PolicyStatus :: "s3_PolicyStatus option"

record GetBucketAclOutput =
  Grants :: "s3_Grant list"

record GetBucketTaggingOutput =
  TagSet :: "s3_Tag list"

record GetBucketLocationOutput =
  LocationConstraint :: "string option"

record s3Details =
  policy :: "GetBucketPolicyOutput option"
  policyStatus :: "GetBucketPolicyStatusOutput option"
  acls :: "GetBucketAclOutput option"
  tags :: "GetBucketTaggingOutput option"

definition s3Details_zero :: s3Details where
  "s3Details_zero = \<lparr>policy = None, policyStatus = None, acls = None, tags = None\<rparr>"

section \<open>aws-sync/s3.go: building and merging snapshots\<close>

text \<open>Modelled from the spec: \<open>strPtrToWrapper\<close> is a helper of the package that is
  not among the sources; it turns a \<open>*string\<close> into the optional string wrapper of the
  record ("field absence is represented explicitly"), \<open>nil\<close> staying \<open>nil\<close>.\<close>

definition strPtrToWrapper :: "string option \<Rightarrow> string option" where
  "strPtrToWrapper s = s"

definition awsACLsToProtoACLs :: "s3_Grant list \<Rightarrow> AWSS3BucketACL list" where
  "awsACLsToProtoACLs grants =
     map (\<lambda>grant.
       \<lparr>Grantee =
          \<lparr>Id = aws_ToString (grantee_ID (grant_Grantee grant)),
           DisplayName = aws_ToString (grantee_DisplayName (grant_Grantee grant)),
           Type = aws_ToString (grantee_Type (grant_Grantee grant)),
           Uri = aws_ToString (grantee_URI (grant_Grantee grant)),
           EmailAddress = aws_ToString (grantee_EmailAddress (grant_Grantee grant))\<rparr>,
        Permission = aws_ToString (grant_Permission grant)\<rparr>) grants"

text \<open>\<open>awsS3Bucket\<close>. The extra first argument is the reading of
  \<open>timestamppb.Now()\<close> at the call.\<close>

definition awsS3Bucket ::
  "timestamp \<Rightarrow> string \<Rightarrow> GetBucketPolicyOutput option \<Rightarrow> GetBucketPolicyStatusOutput option \<Rightarrow>
   GetBucketAclOutput option \<Rightarrow> GetBucketTaggingOutput option \<Rightarrow> string \<Rightarrow> AWSS3BucketV1" where
  "awsS3Bucket now name pol polStatus acl tagging accountID =
     (let s3 = AWSS3BucketV1_zero\<lparr>Name := name, AccountId := accountID, LastSyncTime := Some now\<rparr>;
          s3 = (case pol of None \<Rightarrow> s3
                | Some p \<Rightarrow> s3\<lparr>PolicyDocument := aws_ToString (Policy p)\<rparr>);
          s3 = (case polStatus of None \<Rightarrow> s3
                | Some ps \<Rightarrow>
                    (case PolicyStatus ps of None \<Rightarrow> s3
                     | Some st \<Rightarrow> s3\<lparr>IsPublic := aws_ToBool (policy_IsPublic st)\<rparr>));
          s3 = (case acl of None \<Rightarrow> s3
                | Some a \<Rightarrow> s3\<lparr>Acls := awsACLsToProtoACLs (Grants a)\<rparr>);
          s3 = (case tagging of None \<Rightarrow> s3
                | Some t \<Rightarrow>
                    s3\<lparr>Tags := Tags s3 @
                       map (\<lambda>tag. \<lparr>Key = aws_ToString (tag_Key tag),
                                   Value = strPtrToWrapper (tag_Value tag)\<rparr>) (TagSet t)\<rparr>)
      in s3)"

text \<open>\<open>proto.Clone\<close> on values: the copy has the fields of the original.\<close>

definition proto_Clone :: "AWSS3BucketV1 \<Rightarrow> AWSS3BucketV1" where
  "proto_Clone m = m"

text \<open>\<open>mergeS3Protos\<close> on values: \<open>existing\<close> and \<open>new\<close> are the objects the two
  pointers refer to, \<open>None\<close> for a \<open>nil\<close> pointer.\<close>

definition mergeS3Protos ::
  "AWSS3BucketV1 option \<Rightarrow> AWSS3BucketV1 option \<Rightarrow> failedRequests \<Rightarrow> AWSS3BucketV1 option" where
  "mergeS3Protos existing new failedReqs =
     (case existing of
        None \<Rightarrow> new
      | Some ex \<Rightarrow>
          (case new of
             None \<Rightarrow> existing
           | Some nw \<Rightarrow>
               (let clone = proto_Clone nw;
                    clone = (if policyFailed failedReqs
                             then clone\<lparr>PolicyDocument := PolicyDocument ex\<rparr> else clone);
                    clone = (if failedPolicyStatus failedReqs
                             then clone\<lparr>IsPublic := IsPublic ex\<rparr> else clone);
                    clone = (if failedAcls failedReqs
                             then clone\<lparr>Acls := Acls ex\<rparr> else clone);
                    clone = (if failedTags failedReqs
                             then clone\<lparr>Tags := Tags ex\<rparr> else clone)
                in Some clone)))"

text \<open>
  \<open>mergeS3Protos\<close> on a store of objects, for what the call writes. The store is the
  list of allocated \<open>AWSS3BucketV1\<close> objects, a pointer is \<open>nil\<close> or the index of its
  object, and \<open>proto.Clone\<close> allocates the copy at the next free index. The field
  assignments of the source write the clone's object only.
\<close>

type_synonym store = "AWSS3BucketV1 list"
type_synonym ptr = "nat option"

definition proto_Clone_store :: "store \<Rightarrow> nat \<Rightarrow> store \<times> nat" where
  "proto_Clone_store h p = (h @ [h ! p], length h)"

definition mergeS3Protos_store ::
  "store \<Rightarrow> ptr \<Rightarrow> ptr \<Rightarrow> failedRequests \<Rightarrow> store \<times> ptr" where
  "mergeS3Protos_store h existing new failedReqs =
     (case existing of
        None \<Rightarrow> (h, new)
      | Some ex \<Rightarrow>
          (case new of
             None \<Rightarrow> (h, existing)
           | Some nw \<Rightarrow>
               (case proto_Clone_store h nw of
                  (h, clone) \<Rightarrow>
                    (let h = (if policyFailed failedReqs
                              then h[clone := (h ! clone)\<lparr>PolicyDocument := PolicyDocument (h ! ex)\<rparr>]
                              else h);
                         h = (if failedPolicyStatus failedReqs
                              then h[clone := (h ! clone)\<lparr>IsPublic := IsPublic (h ! ex)\<rparr>]
                              else h);
                         h = (if failedAcls failedReqs
                              then h[clone := (h ! clone)\<lparr>Acls := Acls (h ! ex)\<rparr>]
                              else h);
                         h = (if failedTags failedReqs
                              then h[clone := (h ! clone)\<lparr>Tags := Tags (h ! ex)\<rparr>]
                              else h)
                     in (h, Some clone)))))"

section \<open>aws-sync/s3.go: fetching\<close>

text \<open>
  The S3 client of the SDK, as the responses of the provider to the calls the source
  makes. A call whose output is read on success only is a sum (\<open>Inl\<close> the error); the
  four detail calls return the pair of Go, because the source stores the output whatever
  the error is.
\<close>

record s3_client =
  ListBuckets :: "go_error + s3_Bucket list"
  GetBucketLocation :: "string option \<Rightarrow> go_error + GetBucketLocationOutput"
  GetBucketPolicy :: "string option \<Rightarrow> GetBucketPolicyOutput option \<times> go_error option"
  GetBucketPolicyStatus :: "string option \<Rightarrow> GetBucketPolicyStatusOutput option \<times> go_error option"
  GetBucketAcl :: "string option \<Rightarrow> GetBucketAclOutput option \<times> go_error option"
  GetBucketTagging :: "string option \<Rightarrow> GetBucketTaggingOutput option \<times> go_error option"

record Resources =
  S3Buckets :: "AWSS3BucketV1 list"

text \<open>The fields of \<open>awsFetcher\<close> that the source reads; \<open>CloudClients\<close> stands for
  \<open>a.CloudClients.GetAWSS3Client(ctx, region, a.getAWSOptions()...)\<close>.\<close>

record awsFetcher =
  AccountID :: string
  Regions :: "string list"
  lastResult :: Resources
  CloudClients :: "string \<Rightarrow> go_error + s3_client"

text \<open>What the source takes from outside the package: the first entry of the table
  \<open>awsutil.GetKnownRegions()\<close>, and the clock, read by the task of the bucket of a given
  name.\<close>

record s3_env =
  knownRegion :: string
  timestamppb_Now :: "string \<Rightarrow> timestamp"

text \<open>Modelled from the spec: \<open>sliceFilterPickFirst\<close> is a helper of the package that is
  not among the sources; by its name and its use (the last known snapshot "for the same
  resource identity", equality "by (name, account)") it returns the first element of the
  slice that satisfies the predicate, and \<open>nil\<close> when there is none.\<close>

definition sliceFilterPickFirst :: "'a list \<Rightarrow> ('a \<Rightarrow> bool) \<Rightarrow> 'a option" where
  "sliceFilterPickFirst xs p = find p xs"

definition isS3BucketPolicyNotFound :: "go_error option \<Rightarrow> bool" where
  "isS3BucketPolicyNotFound err =
     (case err of None \<Rightarrow> False
      | Some e \<Rightarrow> errors_As_awserr e = Some ''NoSuchBucketPolicy'')"

definition isS3BucketNoTagSet :: "go_error option \<Rightarrow> bool" where
  "isS3BucketNoTagSet err =
     (case err of None \<Rightarrow> False
      | Some e \<Rightarrow> errors_As_awserr e = Some ''NoSuchTagSet'')"

definition getS3BucketDetails ::
  "awsFetcher \<Rightarrow> s3_Bucket \<Rightarrow> string \<Rightarrow> s3Details \<times> failedRequests \<times> go_error list" where
  "getS3BucketDetails a bucket bucketRegion =
     (let failedReqs = failedRequests_zero; errs = []; details = s3Details_zero
      in case CloudClients a bucketRegion of
        Inl err \<Rightarrow>
          (s3Details_zero,
           \<lparr>policyFailed = True, failedPolicyStatus = True, failedAcls = True,
            failedTags = True, headFailed = True\<rparr>,
           errs @ [trace_Wrap err
             [''failed to create s3 client for bucket %q'', aws_ToString (bucket_Name bucket)]])
      | Inr s3Client \<Rightarrow>
          (let (out, err) = GetBucketPolicy s3Client (bucket_Name bucket);
               details = details\<lparr>policy := out\<rparr>;
               (errs, failedReqs) =
                 (if err \<noteq> None \<and> \<not> isS3BucketPolicyNotFound err
                  then (errs @ [trace_Wrap (the err)
                          [''failed to fetch bucket %q inline policy'',
                           aws_ToString (bucket_Name bucket)]],
                        failedReqs\<lparr>policyFailed := True\<rparr>)
                  else (errs, failedReqs));
               (out, err) = GetBucketPolicyStatus s3Client (bucket_Name bucket);
               details = details\<lparr>policyStatus := out\<rparr>;
               (errs, failedReqs) =
                 (if err \<noteq> None \<and> \<not> isS3BucketPolicyNotFound err
                  then (errs @ [trace_Wrap (the err)
                          [''failed to fetch bucket %q policy status'',
                           aws_ToString (bucket_Name bucket)]],
                        failedReqs\<lparr>failedPolicyStatus := True\<rparr>)
                  else (errs, failedReqs));
               (out, err) = GetBucketAcl s3Client (bucket_Name bucket);
               details = details\<lparr>acls := out\<rparr>;
               (errs, failedReqs) =
                 (if err \<noteq> None
                  then (errs @ [trace_Wrap (the err)
                          [''failed to fetch bucket %q acls policies'',
                           aws_ToString (bucket_Name bucket)]],
                        failedReqs\<lparr>failedAcls := True\<rparr>)
                  else (errs, failedReqs));
               (out, err) = GetBucketTagging s3Client (bucket_Name bucket);
               details = details\<lparr>tags := out\<rparr>;
               (errs, failedReqs) =
                 (if err \<noteq> None \<and> \<not> isS3BucketNoTagSet err
                  then (errs @ [trace_Wrap (the err)
                          [''failed to fetch bucket %q tags'',
                           aws_ToString (bucket_Name bucket)]],
                        failedReqs\<lparr>failedTags := True\<rparr>)
                  else (errs, failedReqs))
           in (details, failedReqs, errs)))"

text \<open>The closure that \<open>listS3Buckets\<close> returns as its second result, over the client
  it captured.\<close>

definition getBucketRegion :: "s3_client \<Rightarrow> string option \<Rightarrow> string \<times> go_error option" where
  "getBucketRegion s3Client bucket =
     (case GetBucketLocation s3Client bucket of
        Inl err \<Rightarrow>
          ([], Some (trace_Wrap err [''failed to fetch bucket %q region'', aws_ToString bucket]))
      | Inr rsp \<Rightarrow>
          (if LocationConstraint rsp = None then (''us-east-1'', None)
           else (aws_ToString (LocationConstraint rsp), None)))"

definition listS3Buckets ::
  "awsFetcher \<Rightarrow> s3_env \<Rightarrow>
   go_error + (s3_Bucket list \<times> (string option \<Rightarrow> string \<times> go_error option))" where
  "listS3Buckets a env =
     (let region = (case Regions a of [] \<Rightarrow> knownRegion env | r # rs \<Rightarrow> r)
      in case CloudClients a region of
        Inl err \<Rightarrow> Inl (trace_Wrap err [])
      | Inr s3Client \<Rightarrow>
          (case ListBuckets s3Client of
             Inl err \<Rightarrow> Inl (trace_Wrap err [])
           | Inr buckets \<Rightarrow> Inr (buckets, getBucketRegion s3Client)))"

text \<open>The accumulator of \<open>fetchS3Buckets\<close> (its variables \<open>s3s\<close> and \<open>errs\<close>) and
  the closure \<open>collect\<close>, which is the only code that writes it. The mutex makes each
  call of \<open>collect\<close> one step on the accumulator.\<close>

record collector =
  s3s :: "AWSS3BucketV1 list"
  errs :: "go_error list"

definition collect :: "collector \<Rightarrow> AWSS3BucketV1 option \<Rightarrow> go_error option \<Rightarrow> collector" where
  "collect st s3 err =
     (let st = (case err of None \<Rightarrow> st | Some e \<Rightarrow> st\<lparr>errs := errs st @ [e]\<rparr>);
          st = (case s3 of None \<Rightarrow> st | Some b \<Rightarrow> st\<lparr>s3s := s3s st @ [b]\<rparr>)
      in st)"

text \<open>The function passed to \<open>eG.Go\<close> for one bucket: it takes the accumulator and
  returns it updated, with the error the function returns to the group.\<close>

definition bucket_task ::
  "awsFetcher \<Rightarrow> s3_env \<Rightarrow> (string option \<Rightarrow> string \<times> go_error option) \<Rightarrow> Resources \<Rightarrow>
   s3_Bucket \<Rightarrow> collector \<Rightarrow> collector \<times> go_error option" where
  "bucket_task a env getRegion existing bucket st =
     (let failedReqs = failedRequests_zero;
          errsT = [];
          existingBucket = sliceFilterPickFirst (S3Buckets existing)
            (\<lambda>b. Name b = aws_ToString (bucket_Name bucket) \<and> AccountId b = AccountID a);
          (bucketRegion, err) = getRegion (bucket_Name bucket)
      in case err of
        Some e \<Rightarrow>
          (let errsT = errsT @ [trace_Wrap e []];
               failedReqs = failedReqs\<lparr>policyFailed := True\<rparr>;
               failedReqs = failedReqs\<lparr>failedPolicyStatus := True\<rparr>;
               failedReqs = failedReqs\<lparr>failedAcls := True\<rparr>;
               failedReqs = failedReqs\<lparr>failedTags := True\<rparr>;
               newBucket = awsS3Bucket (timestamppb_Now env (aws_ToString (bucket_Name bucket)))
                 (aws_ToString (bucket_Name bucket)) None None None None (AccountID a)
           in (collect st (mergeS3Protos existingBucket (Some newBucket) failedReqs)
                 (trace_NewAggregate errsT),
               None))
      | None \<Rightarrow>
          (let (details, failedReqs, errsL) = getS3BucketDetails a bucket bucketRegion;
               newBucket = awsS3Bucket (timestamppb_Now env (aws_ToString (bucket_Name bucket)))
                 (aws_ToString (bucket_Name bucket)) (policy details) (policyStatus details)
                 (acls details) (tags details) (AccountID a)
           in (collect st (mergeS3Protos existingBucket (Some newBucket) failedReqs)
                 (trace_NewAggregate (errsT @ errsL)),
               None)))"

text \<open>
  The \<open>errgroup\<close>. \<open>eG.Go(f)\<close> runs \<open>f\<close> and keeps the first non-nil error a
  function returns; \<open>eG.Wait()\<close> returns that error once every function has returned.
  The state of a run is the accumulator and the group's error.
\<close>

definition errgroup_Go ::
  "('s \<Rightarrow> 's \<times> go_error option) \<Rightarrow> 's \<times> go_error option \<Rightarrow> 's \<times> go_error option" where
  "errgroup_Go f g =
     (case g of (st, gerr) \<Rightarrow>
        (case f st of (st', ret) \<Rightarrow> (st', if gerr = None then ret else gerr)))"

text \<open>
  \<open>fetchS3Buckets\<close>. The tasks run concurrently, at most five at a time, and reach
  \<open>collect\<close> in an order the scheduler decides: \<open>sched\<close> gives, for the list of
  dispatched buckets, the order in which their tasks take the mutex. A task reads
  nothing that another task writes, so this order is all the interleaving can change.
\<close>

definition fetchS3Buckets ::
  "awsFetcher \<Rightarrow> s3_env \<Rightarrow> (s3_Bucket list \<Rightarrow> s3_Bucket list) \<Rightarrow>
   AWSS3BucketV1 list \<times> go_error option" where
  "fetchS3Buckets a env sched =
     (let existing = lastResult a
      in case listS3Buckets a env of
        Inl err \<Rightarrow> (S3Buckets existing, Some (trace_Wrap err []))
      | Inr (buckets, getRegion) \<Rightarrow>
          (case fold (\<lambda>bucket. errgroup_Go (bucket_task a env getRegion existing bucket))
                  (sched buckets) (\<lparr>s3s = [], errs = []\<rparr>, None) of
             (st, waitErr) \<Rightarrow> (s3s st, trace_NewAggregate (errs st))))"

text \<open>\<open>pollAWSS3Buckets\<close>: the returned function, run on the result record and on the
  state \<open>c\<close> of the caller's error collector.\<close>

definition pollAWSS3Buckets ::
  "awsFetcher \<Rightarrow> s3_env \<Rightarrow> (s3_Bucket list \<Rightarrow> s3_Bucket list) \<Rightarrow> (go_error \<Rightarrow> 'c \<Rightarrow> 'c) \<Rightarrow>
   Resources \<times> 'c \<Rightarrow> (Resources \<times> 'c) \<times> go_error option" where
  "pollAWSS3Buckets a env sched collectErr rc =
     (case rc of (result, c) \<Rightarrow>
        (case fetchS3Buckets a env sched of
           (bs, err) \<Rightarrow>
             (let result = result\<lparr>S3Buckets := bs\<rparr>;
                  c = (case err of None \<Rightarrow> c
                       | Some e \<Rightarrow> collectErr (trace_Wrap e [''failed to fetch s3 buckets'']) c)
              in ((result, c), None))))"

text \<open>The snapshot and the errors a task hands to \<open>collect\<close>: the accumulator after the
  task has run on the empty one.\<close>

definition task_collected ::
  "awsFetcher \<Rightarrow> s3_env \<Rightarrow> (string option \<Rightarrow> string \<times> go_error option) \<Rightarrow> Resources \<Rightarrow>
   s3_Bucket \<Rightarrow> collector" where
  "task_collected a env getRegion existing bucket =
     fst (bucket_task a env getRegion existing bucket \<lparr>s3s = [], errs = []\<rparr>)"

section \<open>db/aws_redshift_serverless.go\<close>

record rss_Tag =
  rss_Key :: "string option"
  rss_Value :: "string option"

record Workgroup =
  WorkgroupName :: "string option"
  WorkgroupArn :: "string option"
  Status :: "string option"

record EndpointAccess =
  EndpointName :: "string option"
  endpoint_WorkgroupName :: "string option"
  EndpointStatus :: "string option"

text \<open>\<open>workgroupWithTags\<close>: the embedded workgroup and its tags.\<close>

record workgroupWithTags =
  wt_Workgroup :: Workgroup
  wt_Tags :: "rss_Tag list"

definition aws_StringValue :: "string option \<Rightarrow> string" where
  "aws_StringValue p = (case p of None \<Rightarrow> [] | Some s \<Rightarrow> s)"

text \<open>What the logger receives: the level, the message and the attributes.\<close>

datatype log_level = DEBUG | INFO | WARN

datatype log_attr = StrAttr string | ErrAttr go_error

type_synonym log_record = "log_level \<times> string \<times> (string \<times> log_attr) list"

text \<open>
  The answer of the provider to one page request: a page with the flag "there is a next
  page", or an error. A paginated operation of the client is the answer to the request
  for page \<open>0\<close>, \<open>1\<close>, ...; an operation whose every page announces a next one never
  signals completion.
\<close>

datatype 'p page_result = Page 'p bool | PageErr go_error

record rssAPI =
  ListWorkgroupsPages :: "nat \<Rightarrow> Workgroup list page_result"
  ListEndpointAccessPages :: "nat \<Rightarrow> EndpointAccess list page_result"
  ListTagsForResource :: "string option \<Rightarrow> go_error + rss_Tag list"

text \<open>
  The SDK's \<open>List...PagesWithContext(ctx, input, fn)\<close>: request a page; on an error
  stop and return it; else call \<open>fn(page, lastPage)\<close>, and go on with the next page
  when \<open>fn\<close> returned true and there is one. \<open>fn\<close> is a closure over variables of its
  caller: it takes their state \<open>s\<close> and returns it with its result. Nothing in the
  loop itself bounds the number of pages, so the function is partial: \<open>None\<close> is a run
  that never returns.
\<close>

partial_function (option) PagesWithContext ::
  "(nat \<Rightarrow> 'p page_result) \<Rightarrow> ('s \<Rightarrow> 'p \<Rightarrow> bool \<Rightarrow> 's \<times> bool) \<Rightarrow> nat \<Rightarrow> 's \<Rightarrow>
   ('s \<times> go_error option) option" where
  "PagesWithContext src fn i s =
     (case src i of
        PageErr err \<Rightarrow> Some (s, Some err)
      | Page page hasNext \<Rightarrow>
          (case fn s page (\<not> hasNext) of
             (s', goOn) \<Rightarrow>
               if goOn \<and> hasNext then PagesWithContext src fn (Suc i) s'
               else Some (s', None)))"

declare PagesWithContext.simps [code]

text \<open>
  What the file takes from other packages, as parameters: the constant
  \<open>maxAWSPages\<close>, \<open>libcloudaws.IsResourceAvailable\<close> (on the resource and its
  status), \<open>libcloudaws.ConvertRequestFailureError\<close>, \<open>trace.IsAccessDenied\<close> and the
  two constructors of database resources of package \<open>common\<close>, which return a database
  or an error. \<open>'db\<close> is \<open>types.Database\<close>.
\<close>

record 'db rss_deps =
  maxAWSPages :: nat
  IsResourceAvailable :: "Workgroup + EndpointAccess \<Rightarrow> string option \<Rightarrow> bool"
  ConvertRequestFailureError :: "go_error option \<Rightarrow> go_error option"
  IsAccessDenied :: "go_error \<Rightarrow> bool"
  NewDatabaseFromRedshiftServerlessWorkgroup :: "Workgroup \<Rightarrow> rss_Tag list \<Rightarrow> go_error + 'db"
  NewDatabaseFromRedshiftServerlessVPCEndpoint ::
    "EndpointAccess \<Rightarrow> Workgroup \<Rightarrow> rss_Tag list \<Rightarrow> go_error + 'db"

text \<open>Modelled from the spec: \<open>flatten\<close> is a helper of the package that is not among
  the sources; the collector "returns the concatenation of all pages in arrival
  order".\<close>

definition flatten :: "'a list list \<Rightarrow> 'a list" where
  "flatten pages = concat pages"

text \<open>The callback of both collectors: append the page, go on while
  \<open>len(pages) <= maxAWSPages\<close>.\<close>

definition getRSSWorkgroups ::
  "'db rss_deps \<Rightarrow> rssAPI \<Rightarrow> (Workgroup list \<times> go_error option) option" where
  "getRSSWorkgroups deps client =
     (case PagesWithContext (ListWorkgroupsPages client)
             (\<lambda>pages page lastPage.
                (let pages = pages @ [page] in (pages, length pages \<le> maxAWSPages deps)))
             0 [] of
        None \<Rightarrow> None
      | Some (pages, err) \<Rightarrow> Some (flatten pages, ConvertRequestFailureError deps err))"

definition getRSSVPCEndpoints ::
  "'db rss_deps \<Rightarrow> rssAPI \<Rightarrow> (EndpointAccess list \<times> go_error option) option" where
  "getRSSVPCEndpoints deps client =
     (case PagesWithContext (ListEndpointAccessPages client)
             (\<lambda>pages page lastPage.
                (let pages = pages @ [page] in (pages, length pages \<le> maxAWSPages deps)))
             0 [] of
        None \<Rightarrow> None
      | Some (pages, err) \<Rightarrow> Some (flatten pages, ConvertRequestFailureError deps err))"

text \<open>\<open>findWorkgroupWithName\<close>: the result is the first workgroup of that name;
  \<open>None\<close> is the pair \<open>(nil, false)\<close> of the source.\<close>

fun findWorkgroupWithName :: "workgroupWithTags list \<Rightarrow> string \<Rightarrow> workgroupWithTags option" where
  "findWorkgroupWithName [] name = None"
| "findWorkgroupWithName (workgroup # workgroups) name =
     (if aws_StringValue (WorkgroupName (wt_Workgroup workgroup)) = name then Some workgroup
      else findWorkgroupWithName workgroups name)"

text \<open>\<open>getRSSResourceTags\<close>, with the records it logs.\<close>

definition getRSSResourceTags ::
  "'db rss_deps \<Rightarrow> string option \<Rightarrow> rssAPI \<Rightarrow> rss_Tag list \<times> log_record list" where
  "getRSSResourceTags deps arn client =
     (case ListTagsForResource client arn of
        Inl err \<Rightarrow>
          ([],
           [if IsAccessDenied deps err
            then (DEBUG, ''No Permission to get Redshift Serverless tags'',
                  [(''arn'', StrAttr (aws_StringValue arn)), (''error'', ErrAttr err)])
            else (WARN, ''Failed to get Redshift Serverless tags'',
                  [(''arn'', StrAttr (aws_StringValue arn)), (''error'', ErrAttr err)])])
      | Inr out_tags \<Rightarrow> (out_tags, []))"

text \<open>The body of the loop of \<open>getDatabasesFromWorkgroups\<close>, on the variables
  \<open>databases\<close> and \<open>workgroupsWithTags\<close> and the log.\<close>

definition workgroup_step ::
  "'db rss_deps \<Rightarrow> rssAPI \<Rightarrow> Workgroup \<Rightarrow>
   'db list \<times> workgroupWithTags list \<times> log_record list \<Rightarrow>
   'db list \<times> workgroupWithTags list \<times> log_record list" where
  "workgroup_step deps client workgroup acc =
     (case acc of (databases, workgroupsWithTags, logs) \<Rightarrow>
        if \<not> IsResourceAvailable deps (Inl workgroup) (Status workgroup)
        then (databases, workgroupsWithTags,
              logs @ [(DEBUG, ''Skipping unavailable  Redshift Serverless workgroup'',
                       [(''workgroup'', StrAttr (aws_StringValue (WorkgroupName workgroup))),
                        (''status'', StrAttr (aws_StringValue (Status workgroup)))])])
        else
          (case getRSSResourceTags deps (WorkgroupArn workgroup) client of
             (wtags, tlogs) \<Rightarrow>
               (case NewDatabaseFromRedshiftServerlessWorkgroup deps workgroup wtags of
                  Inl err \<Rightarrow>
                    (databases, workgroupsWithTags,
                     logs @ tlogs @
                       [(INFO, ''Could not convert Redshift Serverless workgroup to database resource'',
                         [(''workgroup'', StrAttr (aws_StringValue (WorkgroupName workgroup))),
                          (''error'', ErrAttr err)])])
                | Inr database \<Rightarrow>
                    (databases @ [database],
                     workgroupsWithTags @ [\<lparr>wt_Workgroup = workgroup, wt_Tags = wtags\<rparr>],
                     logs @ tlogs))))"

definition getDatabasesFromWorkgroups ::
  "'db rss_deps \<Rightarrow> rssAPI \<Rightarrow>
   (('db list \<times> workgroupWithTags list \<times> go_error option) \<times> log_record list) option" where
  "getDatabasesFromWorkgroups deps client =
     (case getRSSWorkgroups deps client of
        None \<Rightarrow> None
      | Some (workgroups, Some err) \<Rightarrow> Some (([], [], Some (trace_Wrap err [])), [])
      | Some (workgroups, None) \<Rightarrow>
          (case fold (workgroup_step deps client) workgroups ([], [], []) of
             (databases, workgroupsWithTags, logs) \<Rightarrow>
               Some ((databases, workgroupsWithTags, None), logs)))"

text \<open>The body of the loop of \<open>getDatabasesFromVPCEndpoints\<close>.\<close>

definition endpoint_step ::
  "'db rss_deps \<Rightarrow> workgroupWithTags list \<Rightarrow> EndpointAccess \<Rightarrow>
   'db list \<times> log_record list \<Rightarrow> 'db list \<times> log_record list" where
  "endpoint_step deps workgroups endpoint acc =
     (case acc of (databases, logs) \<Rightarrow>
        (case findWorkgroupWithName workgroups (aws_StringValue (endpoint_WorkgroupName endpoint)) of
           None \<Rightarrow>
             (databases,
              logs @ [(DEBUG, ''Could not find matching workgroup for Redshift Serverless endpoint'',
                       [(''endpoint'', StrAttr (aws_StringValue (EndpointName endpoint)))])])
         | Some workgroup \<Rightarrow>
             if \<not> IsResourceAvailable deps (Inr endpoint) (EndpointStatus endpoint)
             then (databases,
                   logs @ [(DEBUG, ''Skipping unavailable Redshift Serverless endpoint'',
                            [(''endpoint'', StrAttr (aws_StringValue (EndpointName endpoint))),
                             (''status'', StrAttr (aws_StringValue (EndpointStatus endpoint)))])])
             else
               (case NewDatabaseFromRedshiftServerlessVPCEndpoint deps endpoint
                       (wt_Workgroup workgroup) (wt_Tags workgroup) of
                  Inl err \<Rightarrow>
                    (databases,
                     logs @ [(INFO, ''Could not convert Redshift Serverless endpoint to database resource'',
                              [(''endpoint'', StrAttr (aws_StringValue (EndpointName endpoint))),
                               (''error'', ErrAttr err)])])
                | Inr database \<Rightarrow> (databases @ [database], logs))))"

definition getDatabasesFromVPCEndpoints ::
  "'db rss_deps \<Rightarrow> workgroupWithTags list \<Rightarrow> rssAPI \<Rightarrow>
   (('db list \<times> go_error option) \<times> log_record list) option" where
  "getDatabasesFromVPCEndpoints deps workgroups client =
     (case getRSSVPCEndpoints deps client of
        None \<Rightarrow> None
      | Some (endpoints, Some err) \<Rightarrow> Some (([], Some (trace_Wrap err [])), [])
      | Some (endpoints, None) \<Rightarrow>
          (case fold (endpoint_step deps workgroups) endpoints ([], []) of
             (databases, logs) \<Rightarrow> Some ((databases, None), logs)))"

text \<open>The fields of \<open>awsFetcherConfig\<close> that \<open>GetDatabases\<close> reads; the client
  constructor stands for \<open>cfg.AWSClients.GetAWSRedshiftServerlessClient\<close> with the
  options of the source.\<close>

record awsFetcherConfig =
  Region :: string
  GetAWSRedshiftServerlessClient :: "string \<Rightarrow> go_error + rssAPI"

definition GetDatabases ::
  "'db rss_deps \<Rightarrow> awsFetcherConfig \<Rightarrow> (('db list \<times> go_error option) \<times> log_record list) option" where
  "GetDatabases deps cfg =
     (case GetAWSRedshiftServerlessClient cfg (Region cfg) of
        Inl err \<Rightarrow> Some (([], Some (trace_Wrap err [])), [])
      | Inr client \<Rightarrow>
          (case getDatabasesFromWorkgroups deps client of
             None \<Rightarrow> None
           | Some ((databases, workgroups, Some err), logs) \<Rightarrow>
               Some (([], Some (trace_Wrap err [])), logs)
           | Some ((databases, workgroups, None), logs) \<Rightarrow>
               if length workgroups > 0
               then
                 (case getDatabasesFromVPCEndpoints deps workgroups client of
                    None \<Rightarrow> None
                  | Some ((vpcEndpointDatabases, verr), vlogs) \<Rightarrow>
                      (let elogs =
                         (case verr of
                            None \<Rightarrow> []
                          | Some err \<Rightarrow>
                              [if IsAccessDenied deps err
                               then (DEBUG, ''No permission to get Redshift Serverless VPC endpoints'',
                                     [(''error'', ErrAttr err)])
                               else (WARN, ''Failed to get Redshift Serverless VPC endpoints'',
                                     [(''error'', ErrAttr err)])])
                       in Some ((databases @ vpcEndpointDatabases, None), logs @ vlogs @ elogs)))
               else Some ((databases, None), logs)))"

section \<open>Concrete inputs\<close>

text \<open>A snapshot of the previous cycle, a client whose listing and location answers are
  given and whose detail calls answer "no policy", "access denied", an empty grant list
  and "no tag set", a fetcher over that client whose previous result is the snapshot, and
  an environment.\<close>

definition ex_prior :: AWSS3BucketV1 where
  "ex_prior = AWSS3BucketV1_zero\<lparr>Name := ''b1'', AccountId := ''123'', IsPublic := True,
     Tags := [\<lparr>Key = ''env'', Value = Some ''prod''\<rparr>]\<rparr>"

definition ex_client ::
  "go_error + s3_Bucket list \<Rightarrow> go_error + GetBucketLocationOutput \<Rightarrow> s3_client" where
  "ex_client listing location =
     \<lparr>ListBuckets = listing,
      GetBucketLocation = (\<lambda>b. location),
      GetBucketPolicy = (\<lambda>b. (None, Some (AwsErr ''NoSuchBucketPolicy'' ''no policy''))),
      GetBucketPolicyStatus = (\<lambda>b. (None, Some (AwsErr ''AccessDenied'' ''denied''))),
      GetBucketAcl = (\<lambda>b. (Some \<lparr>Grants = []\<rparr>, None)),
      GetBucketTagging = (\<lambda>b. (None, Some (AwsErr ''NoSuchTagSet'' ''no tags'')))\<rparr>"

definition ex_fetcher :: "s3_client \<Rightarrow> awsFetcher" where
  "ex_fetcher c =
     \<lparr>AccountID = ''123'', Regions = [], lastResult = \<lparr>S3Buckets = [ex_prior]\<rparr>,
      CloudClients = (\<lambda>region. Inr c)\<rparr>"

definition ex_env :: s3_env where
  "ex_env = \<lparr>knownRegion = ''us-east-1'', timestamppb_Now = (\<lambda>name. 7)\<rparr>"

text \<open>For the Redshift Serverless plugin: a workgroup and an endpoint by name and status,
  dependencies with a cap of ten pages, availability meaning the status \<open>available\<close>,
  a database being the name of its resource with the tags it was given, and a given
  constructor for endpoints; a client over two given page sources that answers every tag
  request with one tag.\<close>

definition ex_workgroup :: "string \<Rightarrow> string \<Rightarrow> Workgroup" where
  "ex_workgroup name status =
     \<lparr>WorkgroupName = Some name, WorkgroupArn = Some (''arn:'' @ name), Status = Some status\<rparr>"

definition ex_endpoint :: "string \<Rightarrow> string \<Rightarrow> string \<Rightarrow> EndpointAccess" where
  "ex_endpoint name wgname status =
     \<lparr>EndpointName = Some name, endpoint_WorkgroupName = Some wgname,
      EndpointStatus = Some status\<rparr>"

definition ex_tag :: rss_Tag where
  "ex_tag = \<lparr>rss_Key = Some ''team'', rss_Value = Some ''data''\<rparr>"

definition ex_deps ::
  "(EndpointAccess \<Rightarrow> Workgroup \<Rightarrow> rss_Tag list \<Rightarrow> go_error + string \<times> rss_Tag list) \<Rightarrow>
   (string \<times> rss_Tag list) rss_deps" where
  "ex_deps conv =
     \<lparr>maxAWSPages = 10,
      IsResourceAvailable = (\<lambda>r status. status = Some ''available''),
      ConvertRequestFailureError = (\<lambda>err. err),
      IsAccessDenied = (\<lambda>err. False),
      NewDatabaseFromRedshiftServerlessWorkgroup =
        (\<lambda>w wtags. Inr (aws_StringValue (WorkgroupName w), wtags)),
      NewDatabaseFromRedshiftServerlessVPCEndpoint = conv\<rparr>"

definition ex_conv_ok ::
  "EndpointAccess \<Rightarrow> Workgroup \<Rightarrow> rss_Tag list \<Rightarrow> go_error + string \<times> rss_Tag list" where
  "ex_conv_ok e w wtags = Inr (aws_StringValue (EndpointName e), wtags)"

definition ex_conv_fails ::
  "EndpointAccess \<Rightarrow> Workgroup \<Rightarrow> rss_Tag list \<Rightarrow> go_error + string \<times> rss_Tag list" where
  "ex_conv_fails e w wtags = Inl (PlainErr ''missing endpoint address'')"

definition ex_rss_client ::
  "(nat \<Rightarrow> Workgroup list page_result) \<Rightarrow> (nat \<Rightarrow> EndpointAccess list page_result) \<Rightarrow> rssAPI" where
  "ex_rss_client wsrc esrc =
     \<lparr>ListWorkgroupsPages = wsrc, ListEndpointAccessPages = esrc,
      ListTagsForResource = (\<lambda>arn. Inr [ex_tag])\<rparr>"

definition ex_cfg :: "rssAPI \<Rightarrow> awsFetcherConfig" where
  "ex_cfg client =
     \<lparr>Region = ''us-east-1'', GetAWSRedshiftServerlessClient = (\<lambda>region. Inr client)\<rparr>"

section \<open>Properties of the merge\<close>

lemmas ex_defs = ex_client_def ex_fetcher_def ex_env_def ex_prior_def

text \<open>
  C1. When both snapshots are present, the merged snapshot has the value of \<open>prior\<close> in
  each of the four governed fields (policy document, public-access flag, ACLs, tags) whose
  failure flag is set and the value of \<open>fresh\<close> in each whose flag is unset; the
  remaining fields (name, account, time of the last synchronisation) are those of
  \<open>fresh\<close>. When \<open>prior\<close> is nil the merge returns \<open>fresh\<close>, and when \<open>fresh\<close>
  is nil it returns \<open>prior\<close>.
\<close>

theorem mergeS3Protos_fieldwise:
  "(\<exists>m. mergeS3Protos (Some prior) (Some fresh) flags = Some m \<and>
      PolicyDocument m = (if policyFailed flags then PolicyDocument prior else PolicyDocument fresh) \<and>
      IsPublic m = (if failedPolicyStatus flags then IsPublic prior else IsPublic fresh) \<and>
      Acls m = (if failedAcls flags then Acls prior else Acls fresh) \<and>
      Tags m = (if failedTags flags then Tags prior else Tags fresh) \<and>
      Name m = Name fresh \<and> AccountId m = AccountId fresh \<and>
      LastSyncTime m = LastSyncTime fresh) \<and>
   mergeS3Protos None new flags = new \<and>
   mergeS3Protos existing None flags = existing"
  by (cases existing) (simp_all add: mergeS3Protos_def proto_Clone_def Let_def)

text \<open>The merge on the store computes the merge on values: the object behind the
  returned pointer is the merged value of the objects behind the two arguments.\<close>

lemma mergeS3Protos_store_value:
  assumes "ex < length h" and "nw < length h"
  shows "case mergeS3Protos_store h (Some ex) (Some nw) flags of
           (h', r) \<Rightarrow>
             map_option (\<lambda>p. h' ! p) r = mergeS3Protos (Some (h ! ex)) (Some (h ! nw)) flags"
  using assms
  by (simp add: mergeS3Protos_store_def proto_Clone_store_def mergeS3Protos_def
      proto_Clone_def Let_def nth_append)

text \<open>
  C9. For two non-nil pointers to allocated snapshots (which may be the same object) and
  any flags, the merge leaves every object that existed before the call as it was, in
  particular those of \<open>prior\<close> and \<open>fresh\<close>, and returns a pointer to an object
  allocated by the call, different from both arguments.
\<close>

theorem mergeS3Protos_store_frame:
  assumes "ex < length h" and "nw < length h"
  shows "\<exists>h'. mergeS3Protos_store h (Some ex) (Some nw) flags = (h', Some (length h)) \<and>
           length h' = Suc (length h) \<and>
           length h \<noteq> ex \<and> length h \<noteq> nw \<and>
           h' ! ex = h ! ex \<and> h' ! nw = h ! nw \<and>
           (\<forall>p < length h. h' ! p = h ! p)"
  using assms
  by (simp add: mergeS3Protos_store_def proto_Clone_store_def Let_def nth_append)

theorem mergeS3Protos_store_frame_witness:
  "(0::nat) < length [AWSS3BucketV1_zero\<lparr>Name := ''b1'', PolicyDocument := ''{}''\<rparr>,
                      AWSS3BucketV1_zero\<lparr>Name := ''b1'', IsPublic := True\<rparr>] \<and>
   (1::nat) < length [AWSS3BucketV1_zero\<lparr>Name := ''b1'', PolicyDocument := ''{}''\<rparr>,
                      AWSS3BucketV1_zero\<lparr>Name := ''b1'', IsPublic := True\<rparr>] \<and>
   mergeS3Protos_store
     [AWSS3BucketV1_zero\<lparr>Name := ''b1'', PolicyDocument := ''{}''\<rparr>,
      AWSS3BucketV1_zero\<lparr>Name := ''b1'', IsPublic := True\<rparr>]
     (Some 0) (Some 1) (failedRequests_zero\<lparr>policyFailed := True\<rparr>) =
     ([AWSS3BucketV1_zero\<lparr>Name := ''b1'', PolicyDocument := ''{}''\<rparr>,
       AWSS3BucketV1_zero\<lparr>Name := ''b1'', IsPublic := True\<rparr>,
       AWSS3BucketV1_zero\<lparr>Name := ''b1'', IsPublic := True, PolicyDocument := ''{}''\<rparr>],
      Some 2)"
  using mergeS3Protos_store_frame
    [of 0 "[AWSS3BucketV1_zero\<lparr>Name := ''b1'', PolicyDocument := ''{}''\<rparr>,
            AWSS3BucketV1_zero\<lparr>Name := ''b1'', IsPublic := True\<rparr>]" 1
        "failedRequests_zero\<lparr>policyFailed := True\<rparr>"]
  by (simp add: mergeS3Protos_store_def proto_Clone_store_def Let_def
      AWSS3BucketV1_zero_def failedRequests_zero_def)

section \<open>Properties of the bucket fetcher\<close>

lemma isS3BucketPolicyNotFound_code:
  "isS3BucketPolicyNotFound (Some (AwsErr code msg)) = (code = ''NoSuchBucketPolicy'')"
  "isS3BucketNoTagSet (Some (AwsErr code msg)) = (code = ''NoSuchTagSet'')"
  by (simp_all add: isS3BucketPolicyNotFound_def isS3BucketNoTagSet_def)

text \<open>
  C2. When the client for the bucket's region is created, each of the four sub-fetches
  sets its failure flag exactly when its call returned an error that is not classified as
  absence (\<open>NoSuchBucketPolicy\<close> for the policy and the policy status,
  \<open>NoSuchTagSet\<close> for the tags, nothing for the ACL), and the returned error list
  holds, in the order of the calls, the wrapped error of exactly the flagged sub-fetches.
  An error of the provider carrying the absence code is classified as absence.
\<close>

theorem getS3BucketDetails_classification:
  assumes "CloudClients a bucketRegion = Inr c"
    and "GetBucketPolicy c (bucket_Name bucket) = (o1, e1)"
    and "GetBucketPolicyStatus c (bucket_Name bucket) = (o2, e2)"
    and "GetBucketAcl c (bucket_Name bucket) = (o3, e3)"
    and "GetBucketTagging c (bucket_Name bucket) = (o4, e4)"
  shows "\<exists>details failed errsL.
      getS3BucketDetails a bucket bucketRegion = (details, failed, errsL) \<and>
      policyFailed failed = (e1 \<noteq> None \<and> \<not> isS3BucketPolicyNotFound e1) \<and>
      failedPolicyStatus failed = (e2 \<noteq> None \<and> \<not> isS3BucketPolicyNotFound e2) \<and>
      failedAcls failed = (e3 \<noteq> None) \<and>
      failedTags failed = (e4 \<noteq> None \<and> \<not> isS3BucketNoTagSet e4) \<and>
      errsL =
        (if policyFailed failed
         then [trace_Wrap (the e1) [''failed to fetch bucket %q inline policy'',
                 aws_ToString (bucket_Name bucket)]] else []) @
        (if failedPolicyStatus failed
         then [trace_Wrap (the e2) [''failed to fetch bucket %q policy status'',
                 aws_ToString (bucket_Name bucket)]] else []) @
        (if failedAcls failed
         then [trace_Wrap (the e3) [''failed to fetch bucket %q acls policies'',
                 aws_ToString (bucket_Name bucket)]] else []) @
        (if failedTags failed
         then [trace_Wrap (the e4) [''failed to fetch bucket %q tags'',
                 aws_ToString (bucket_Name bucket)]] else []) \<and>
      isS3BucketPolicyNotFound (Some (AwsErr code msg)) = (code = ''NoSuchBucketPolicy'') \<and>
      isS3BucketNoTagSet (Some (AwsErr code msg)) = (code = ''NoSuchTagSet'')"
  using assms
  by (simp add: getS3BucketDetails_def Let_def failedRequests_zero_def
      isS3BucketPolicyNotFound_code)

theorem getS3BucketDetails_classification_witness:
  "CloudClients (ex_fetcher (ex_client (Inr []) (Inl (PlainErr ''x'')))) ''eu-west-1'' =
     Inr (ex_client (Inr []) (Inl (PlainErr ''x''))) \<and>
   getS3BucketDetails (ex_fetcher (ex_client (Inr []) (Inl (PlainErr ''x''))))
     \<lparr>bucket_Name = Some ''b1''\<rparr> ''eu-west-1'' =
     (\<lparr>policy = None, policyStatus = None, acls = Some \<lparr>Grants = []\<rparr>, tags = None\<rparr>,
      \<lparr>policyFailed = False, failedPolicyStatus = True, failedAcls = False,
       failedTags = False, headFailed = False\<rparr>,
      [TraceErr [''failed to fetch bucket %q policy status'', ''b1'']
         (AwsErr ''AccessDenied'' ''denied'')])"
  using getS3BucketDetails_classification
    [of "ex_fetcher (ex_client (Inr []) (Inl (PlainErr ''x'')))" "''eu-west-1''"
        "ex_client (Inr []) (Inl (PlainErr ''x''))" "\<lparr>bucket_Name = Some ''b1''\<rparr>"
        None "Some (AwsErr ''NoSuchBucketPolicy'' ''no policy'')"
        None "Some (AwsErr ''AccessDenied'' ''denied'')"
        "Some \<lparr>Grants = []\<rparr>" None
        None "Some (AwsErr ''NoSuchTagSet'' ''no tags'')"]
  by (simp add: ex_defs getS3BucketDetails_def Let_def failedRequests_zero_def s3Details_zero_def
      isS3BucketPolicyNotFound_def isS3BucketNoTagSet_def trace_Wrap_def aws_ToString_def)

text \<open>
  C10. When \<open>GetBucketLocation\<close> succeeds with no location constraint, the region
  resolver returns \<open>us-east-1\<close> and no error, and the task of the bucket goes on to the
  detail fetch in that region: what it collects is the merge of the snapshot built from
  those details, with the errors of the detail fetch only.
\<close>

theorem getBucketRegion_nil_location:
  assumes "GetBucketLocation c (bucket_Name bucket) = Inr rsp"
    and "LocationConstraint rsp = None"
  shows "getBucketRegion c (bucket_Name bucket) = (''us-east-1'', None) \<and>
         bucket_task a env (getBucketRegion c) existing bucket st =
           (case getS3BucketDetails a bucket ''us-east-1'' of
              (details, failedReqs, errsL) \<Rightarrow>
                (collect st
                   (mergeS3Protos
                      (sliceFilterPickFirst (S3Buckets existing)
                         (\<lambda>b. Name b = aws_ToString (bucket_Name bucket) \<and> AccountId b = AccountID a))
                      (Some (awsS3Bucket (timestamppb_Now env (aws_ToString (bucket_Name bucket)))
                         (aws_ToString (bucket_Name bucket)) (policy details) (policyStatus details)
                         (acls details) (tags details) (AccountID a)))
                      failedReqs)
                   (trace_NewAggregate errsL),
                 None))"
  using assms
  by (simp add: getBucketRegion_def bucket_task_def Let_def split: prod.splits)

theorem getBucketRegion_nil_location_witness:
  "GetBucketLocation (ex_client (Inr []) (Inr \<lparr>LocationConstraint = None\<rparr>)) (Some ''b1'') =
     Inr \<lparr>LocationConstraint = None\<rparr> \<and>
   LocationConstraint \<lparr>LocationConstraint = None\<rparr> = None \<and>
   getBucketRegion (ex_client (Inr []) (Inr \<lparr>LocationConstraint = None\<rparr>)) (Some ''b1'') =
     (''us-east-1'', None) \<and>
   bucket_task (ex_fetcher (ex_client (Inr []) (Inr \<lparr>LocationConstraint = None\<rparr>))) ex_env
     (getBucketRegion (ex_client (Inr []) (Inr \<lparr>LocationConstraint = None\<rparr>)))
     \<lparr>S3Buckets = [ex_prior]\<rparr> \<lparr>bucket_Name = Some ''b1''\<rparr> \<lparr>s3s = [], errs = []\<rparr> =
     (\<lparr>s3s = [AWSS3BucketV1_zero\<lparr>Name := ''b1'', AccountId := ''123'', IsPublic := True,
                LastSyncTime := Some 7\<rparr>],
       errs = [Aggregate [TraceErr [''failed to fetch bucket %q policy status'', ''b1'']
                 (AwsErr ''AccessDenied'' ''denied'')]]\<rparr>, None)"
  using getBucketRegion_nil_location
    [of "ex_client (Inr []) (Inr \<lparr>LocationConstraint = None\<rparr>)" "\<lparr>bucket_Name = Some ''b1''\<rparr>"
        "\<lparr>LocationConstraint = None\<rparr>"
        "ex_fetcher (ex_client (Inr []) (Inr \<lparr>LocationConstraint = None\<rparr>))" ex_env
        "\<lparr>S3Buckets = [ex_prior]\<rparr>" "\<lparr>s3s = [], errs = []\<rparr>"]
  by (simp add: ex_defs getS3BucketDetails_def Let_def failedRequests_zero_def s3Details_zero_def
      isS3BucketPolicyNotFound_def isS3BucketNoTagSet_def trace_Wrap_def aws_ToString_def
      collect_def mergeS3Protos_def proto_Clone_def sliceFilterPickFirst_def awsS3Bucket_def
      trace_NewAggregate_def AWSS3BucketV1_zero_def awsACLsToProtoACLs_def)

lemma fetchS3Buckets_listS3Buckets_error:
  assumes "listS3Buckets a env = Inl err"
  shows "fetchS3Buckets a env sched = (S3Buckets (lastResult a), Some (trace_Wrap err []))"
  using assms by (simp add: fetchS3Buckets_def Let_def)

text \<open>
  C3. When the \<open>ListBuckets\<close> call of the listing client fails, \<open>fetchS3Buckets\<close>
  returns the bucket list of the previous result as it is, with the wrapped error of the
  call; the result does not depend on the schedule or the clock, no task having run, and
  \<open>pollAWSS3Buckets\<close> stores that same list and reports the error.
\<close>

theorem fetchS3Buckets_listing_failure:
  assumes "CloudClients a (case Regions a of [] \<Rightarrow> knownRegion env | r # rs \<Rightarrow> r) = Inr c"
    and "ListBuckets c = Inl e"
  shows "fetchS3Buckets a env sched =
           (S3Buckets (lastResult a), Some (trace_Wrap (trace_Wrap e []) [])) \<and>
         pollAWSS3Buckets a env sched collectErr (result, cs) =
           ((result\<lparr>S3Buckets := S3Buckets (lastResult a)\<rparr>,
             collectErr (trace_Wrap (trace_Wrap (trace_Wrap e []) [])
               [''failed to fetch s3 buckets'']) cs), None)"
proof -
  have "listS3Buckets a env = Inl (trace_Wrap e [])"
    using assms by (simp add: listS3Buckets_def Let_def)
  then have "fetchS3Buckets a env sched =
      (S3Buckets (lastResult a), Some (trace_Wrap (trace_Wrap e []) []))"
    by (rule fetchS3Buckets_listS3Buckets_error)
  then show ?thesis
    by (simp add: pollAWSS3Buckets_def Let_def)
qed

theorem fetchS3Buckets_listing_failure_witness:
  "CloudClients (ex_fetcher (ex_client (Inl (PlainErr ''timeout'')) (Inl (PlainErr ''x''))))
     (case Regions (ex_fetcher (ex_client (Inl (PlainErr ''timeout'')) (Inl (PlainErr ''x'')))) of
        [] \<Rightarrow> knownRegion ex_env | r # rs \<Rightarrow> r) =
     Inr (ex_client (Inl (PlainErr ''timeout'')) (Inl (PlainErr ''x''))) \<and>
   ListBuckets (ex_client (Inl (PlainErr ''timeout'')) (Inl (PlainErr ''x''))) =
     Inl (PlainErr ''timeout'') \<and>
   fetchS3Buckets (ex_fetcher (ex_client (Inl (PlainErr ''timeout'')) (Inl (PlainErr ''x''))))
     ex_env rev =
     ([ex_prior], Some (TraceErr [] (TraceErr [] (PlainErr ''timeout''))))"
  using fetchS3Buckets_listing_failure
    [of "ex_fetcher (ex_client (Inl (PlainErr ''timeout'')) (Inl (PlainErr ''x'')))" ex_env
        "ex_client (Inl (PlainErr ''timeout'')) (Inl (PlainErr ''x''))" "PlainErr ''timeout''" rev
        "\<lambda>e c. e # c" "\<lparr>S3Buckets = []\<rparr>" "[]"]
  by (simp add: ex_client_def ex_fetcher_def trace_Wrap_def)

text \<open>What a task does to the accumulator, and the run of all tasks.\<close>

lemma mergeS3Protos_new_Some: "\<exists>m. mergeS3Protos existing (Some nw) flags = Some m"
  by (cases existing) (simp_all add: mergeS3Protos_def Let_def)

lemma collect_append:
  "collect st s3 err =
     \<lparr>s3s = s3s st @ s3s (collect \<lparr>s3s = [], errs = []\<rparr> s3 err),
      errs = errs st @ errs (collect \<lparr>s3s = [], errs = []\<rparr> s3 err)\<rparr>"
  by (cases st) (simp add: collect_def Let_def split: option.splits)

lemma bucket_task_collect:
  "\<exists>s3 err. \<forall>st. bucket_task a env getRegion existing bucket st = (collect st (Some s3) err, None)"
proof -
  obtain r e where g: "getRegion (bucket_Name bucket) = (r, e)"
    by (cases "getRegion (bucket_Name bucket)")
  obtain d f l where d: "getS3BucketDetails a bucket r = (d, f, l)"
    by (cases "getS3BucketDetails a bucket r")
  let ?ex = "sliceFilterPickFirst (S3Buckets existing)
    (\<lambda>b. Name b = aws_ToString (bucket_Name bucket) \<and> AccountId b = AccountID a)"
  show ?thesis
  proof (cases e)
    case None
    obtain m where "mergeS3Protos ?ex
        (Some (awsS3Bucket (timestamppb_Now env (aws_ToString (bucket_Name bucket)))
           (aws_ToString (bucket_Name bucket)) (policy d) (policyStatus d) (acls d) (tags d)
           (AccountID a))) f = Some m"
      using mergeS3Protos_new_Some by blast
    with g d None
    have "\<forall>st. bucket_task a env getRegion existing bucket st =
            (collect st (Some m) (trace_NewAggregate l), None)"
      by (simp add: bucket_task_def Let_def)
    then show ?thesis by blast
  next
    case (Some x)
    obtain m where "mergeS3Protos ?ex
        (Some (awsS3Bucket (timestamppb_Now env (aws_ToString (bucket_Name bucket)))
           (aws_ToString (bucket_Name bucket)) None None None None (AccountID a)))
        (failedRequests_zero\<lparr>policyFailed := True, failedPolicyStatus := True,
           failedAcls := True, failedTags := True\<rparr>) = Some m"
      using mergeS3Protos_new_Some by blast
    with g Some
    have "\<forall>st. bucket_task a env getRegion existing bucket st =
            (collect st (Some m) (trace_NewAggregate [trace_Wrap x []]), None)"
      by (simp add: bucket_task_def Let_def)
    then show ?thesis by blast
  qed
qed

lemma bucket_task_append:
  "bucket_task a env getRegion existing bucket st =
     (\<lparr>s3s = s3s st @ s3s (task_collected a env getRegion existing bucket),
       errs = errs st @ errs (task_collected a env getRegion existing bucket)\<rparr>, None)"
proof -
  obtain s3 err where
    t: "\<And>st. bucket_task a env getRegion existing bucket st = (collect st (Some s3) err, None)"
    using bucket_task_collect by blast
  show ?thesis
    unfolding task_collected_def t fst_conv
    by (rule arg_cong2 [where f = Pair, OF collect_append refl])
qed

lemma task_collected_one: "length (s3s (task_collected a env getRegion existing bucket)) = 1"
proof -
  obtain s3 err where
    t: "\<And>st. bucket_task a env getRegion existing bucket st = (collect st (Some s3) err, None)"
    using bucket_task_collect by blast
  show ?thesis
    unfolding task_collected_def t by (simp add: collect_def Let_def split: option.splits)
qed

lemma errgroup_Go_bucket_task:
  "errgroup_Go (bucket_task a env getRegion existing b) (st, None) =
     (\<lparr>s3s = s3s st @ s3s (task_collected a env getRegion existing b),
       errs = errs st @ errs (task_collected a env getRegion existing b)\<rparr>, None)"
  by (simp add: errgroup_Go_def bucket_task_append [of a env getRegion existing b st])

lemma fold_bucket_tasks:
  "fold (\<lambda>bucket. errgroup_Go (bucket_task a env getRegion existing bucket)) bs (st, None) =
     (\<lparr>s3s = s3s st @ concat (map (\<lambda>b. s3s (task_collected a env getRegion existing b)) bs),
       errs = errs st @ concat (map (\<lambda>b. errs (task_collected a env getRegion existing b)) bs)\<rparr>,
      None)"
proof (induction bs arbitrary: st)
  case Nil
  show ?case by simp
next
  case (Cons b bs)
  show ?case
    by (simp add: errgroup_Go_bucket_task Cons.IH)
qed

lemma fetchS3Buckets_listed:
  assumes "listS3Buckets a env = Inr (buckets, getRegion)"
  shows "fetchS3Buckets a env sched =
     (concat (map (\<lambda>b. s3s (task_collected a env getRegion (lastResult a) b)) (sched buckets)),
      trace_NewAggregate
        (concat (map (\<lambda>b. errs (task_collected a env getRegion (lastResult a) b)) (sched buckets))))"
  using assms by (simp add: fetchS3Buckets_def Let_def fold_bucket_tasks)

lemma mset_concat_map_cong:
  assumes "mset xs = mset ys"
  shows "mset (concat (map f xs)) = mset (concat (map f ys))"
proof -
  have "mset (concat (map f zs)) = (\<Sum>z\<in>#mset zs. mset (f z))" for zs
    by (induction zs) simp_all
  with assms show ?thesis by simp
qed

lemma length_concat_singletons:
  assumes "\<And>x. length (f x) = 1"
  shows "length (concat (map f xs)) = length xs"
  using assms by (induction xs) simp_all

lemma task_collected_region_failure:
  assumes "getRegion (bucket_Name bucket) = (r, Some err)"
  shows "task_collected a env getRegion existing bucket =
     \<lparr>s3s = [the (mergeS3Protos
               (sliceFilterPickFirst (S3Buckets existing)
                  (\<lambda>b. Name b = aws_ToString (bucket_Name bucket) \<and> AccountId b = AccountID a))
               (Some (awsS3Bucket (timestamppb_Now env (aws_ToString (bucket_Name bucket)))
                  (aws_ToString (bucket_Name bucket)) None None None None (AccountID a)))
               \<lparr>policyFailed = True, failedPolicyStatus = True, failedAcls = True,
                failedTags = True, headFailed = False\<rparr>)],
      errs = [Aggregate [trace_Wrap err []]]\<rparr>"
proof -
  let ?ex = "sliceFilterPickFirst (S3Buckets existing)
    (\<lambda>b. Name b = aws_ToString (bucket_Name bucket) \<and> AccountId b = AccountID a)"
  obtain m where "mergeS3Protos ?ex
        (Some (awsS3Bucket (timestamppb_Now env (aws_ToString (bucket_Name bucket)))
           (aws_ToString (bucket_Name bucket)) None None None None (AccountID a)))
        \<lparr>policyFailed = True, failedPolicyStatus = True, failedAcls = True,
                failedTags = True, headFailed = False\<rparr> = Some m"
    using mergeS3Protos_new_Some by blast
  with assms show ?thesis
    by (simp add: task_collected_def bucket_task_def Let_def collect_def trace_NewAggregate_def
        failedRequests_zero_def)
qed

text \<open>
  C6. Let the listing succeed and let the region lookup of a listed bucket fail. Then its
  task builds a snapshot that holds the bucket's name, the account and the time only,
  merges it with all four failure flags set against the snapshot of the same name and
  account of the previous result (with a previous snapshot the four governed fields are
  those of the previous snapshot, without one the bare snapshot is the result), and
  collects the merged snapshot with the region error. The cycle returns a list with one
  snapshot for every listed bucket, the merged one among them, together with the
  aggregate of the errors, and \<open>pollAWSS3Buckets\<close> stores the list and returns nil.
\<close>

theorem region_failure_bucket_kept:
  assumes "listS3Buckets a env = Inr (buckets, getRegion)"
    and "bucket \<in> set buckets"
    and "getRegion (bucket_Name bucket) = (r, Some err)"
    and "mset (sched buckets) = mset buckets"
  shows "\<exists>fresh merged outs aggr.
      fresh = AWSS3BucketV1_zero\<lparr>Name := aws_ToString (bucket_Name bucket),
                AccountId := AccountID a,
                LastSyncTime := Some (timestamppb_Now env (aws_ToString (bucket_Name bucket)))\<rparr> \<and>
      mergeS3Protos
        (sliceFilterPickFirst (S3Buckets (lastResult a))
           (\<lambda>b. Name b = aws_ToString (bucket_Name bucket) \<and> AccountId b = AccountID a))
        (Some fresh)
        \<lparr>policyFailed = True, failedPolicyStatus = True, failedAcls = True,
         failedTags = True, headFailed = False\<rparr> = Some merged \<and>
      merged =
        (case sliceFilterPickFirst (S3Buckets (lastResult a))
                (\<lambda>b. Name b = aws_ToString (bucket_Name bucket) \<and> AccountId b = AccountID a) of
           None \<Rightarrow> fresh
         | Some prior \<Rightarrow>
             fresh\<lparr>PolicyDocument := PolicyDocument prior, IsPublic := IsPublic prior,
                   Acls := Acls prior, Tags := Tags prior\<rparr>) \<and>
      task_collected a env getRegion (lastResult a) bucket =
        \<lparr>s3s = [merged], errs = [Aggregate [trace_Wrap err []]]\<rparr> \<and>
      fetchS3Buckets a env sched = (outs, Some aggr) \<and>
      merged \<in> set outs \<and> length outs = length buckets \<and>
      pollAWSS3Buckets a env sched collectErr (result, cs) =
        ((result\<lparr>S3Buckets := outs\<rparr>,
          collectErr (trace_Wrap aggr [''failed to fetch s3 buckets'']) cs), None)"
proof -
  let ?name = "aws_ToString (bucket_Name bucket)"
  let ?prior = "sliceFilterPickFirst (S3Buckets (lastResult a))
           (\<lambda>b. Name b = ?name \<and> AccountId b = AccountID a)"
  let ?all = "\<lparr>policyFailed = True, failedPolicyStatus = True, failedAcls = True,
         failedTags = True, headFailed = False\<rparr>"
  let ?fresh = "awsS3Bucket (timestamppb_Now env ?name) ?name None None None None (AccountID a)"
  let ?tc = "task_collected a env getRegion (lastResult a)"
  let ?outs = "concat (map (\<lambda>b. s3s (?tc b)) (sched buckets))"
  let ?errs = "concat (map (\<lambda>b. errs (?tc b)) (sched buckets))"
  have fresh: "?fresh = AWSS3BucketV1_zero\<lparr>Name := ?name, AccountId := AccountID a,
                LastSyncTime := Some (timestamppb_Now env ?name)\<rparr>"
    by (simp add: awsS3Bucket_def Let_def)
  obtain merged where m: "mergeS3Protos ?prior (Some ?fresh) ?all = Some merged"
    using mergeS3Protos_new_Some by blast
  have shape: "merged = (case ?prior of None \<Rightarrow> ?fresh
         | Some prior \<Rightarrow>
             ?fresh\<lparr>PolicyDocument := PolicyDocument prior, IsPublic := IsPublic prior,
                   Acls := Acls prior, Tags := Tags prior\<rparr>)"
    using m by (simp add: mergeS3Protos_def proto_Clone_def Let_def split: option.splits)
  have tc: "?tc bucket = \<lparr>s3s = [merged], errs = [Aggregate [trace_Wrap err []]]\<rparr>"
    using task_collected_region_failure [of getRegion bucket r err a env "lastResult a"] assms(3) m
    by simp
  have fetch: "fetchS3Buckets a env sched = (?outs, trace_NewAggregate ?errs)"
    by (rule fetchS3Buckets_listed [OF assms(1)])
  have mem: "bucket \<in> set (sched buckets)"
    using assms(2) mset_eq_setD [OF assms(4)] by simp
  have in_outs: "merged \<in> set ?outs"
    using mem tc by force
  have "Aggregate [trace_Wrap err []] \<in> set ?errs"
    using mem tc by force
  then have "?errs \<noteq> []" by (metis empty_iff list.set(1))
  then have aggr: "trace_NewAggregate ?errs = Some (Aggregate ?errs)"
    by (simp add: trace_NewAggregate_def)
  have len: "length ?outs = length buckets"
    using length_concat_singletons [of "\<lambda>b. s3s (?tc b)" "sched buckets"]
      task_collected_one mset_eq_length [OF assms(4)] by simp
  have poll: "pollAWSS3Buckets a env sched collectErr (result, cs) =
        ((result\<lparr>S3Buckets := ?outs\<rparr>,
          collectErr (trace_Wrap (Aggregate ?errs) [''failed to fetch s3 buckets'']) cs), None)"
    by (simp add: pollAWSS3Buckets_def fetch aggr Let_def)
  have fetch': "fetchS3Buckets a env sched = (?outs, Some (Aggregate ?errs))"
    using fetch aggr by simp
  show ?thesis
    apply (rule exI [of _ "?fresh"])
    apply (rule exI [of _ merged])
    apply (rule exI [of _ "?outs"])
    apply (rule exI [of _ "Aggregate ?errs"])
    apply (intro conjI)
           apply (rule fresh)
          apply (rule m)
         apply (rule shape)
        apply (rule tc)
       apply (rule fetch')
      apply (rule in_outs)
     apply (rule len)
    apply (rule poll)
    done
qed

theorem region_failure_bucket_kept_witness:
  "listS3Buckets
     (ex_fetcher (ex_client (Inr [\<lparr>bucket_Name = Some ''b1''\<rparr>]) (Inl (PlainErr ''timeout''))))
     ex_env =
     Inr ([\<lparr>bucket_Name = Some ''b1''\<rparr>],
          getBucketRegion (ex_client (Inr [\<lparr>bucket_Name = Some ''b1''\<rparr>]) (Inl (PlainErr ''timeout'')))) \<and>
   \<lparr>bucket_Name = Some ''b1''\<rparr> \<in> set [\<lparr>bucket_Name = Some ''b1''\<rparr>] \<and>
   getBucketRegion (ex_client (Inr [\<lparr>bucket_Name = Some ''b1''\<rparr>]) (Inl (PlainErr ''timeout'')))
     (bucket_Name \<lparr>bucket_Name = Some ''b1''\<rparr>) =
     ([], Some (TraceErr [''failed to fetch bucket %q region'', ''b1''] (PlainErr ''timeout''))) \<and>
   mset (rev [\<lparr>bucket_Name = Some ''b1''\<rparr>]) = mset [\<lparr>bucket_Name = Some ''b1''\<rparr>] \<and>
   fetchS3Buckets
     (ex_fetcher (ex_client (Inr [\<lparr>bucket_Name = Some ''b1''\<rparr>]) (Inl (PlainErr ''timeout''))))
     ex_env rev =
     ([AWSS3BucketV1_zero\<lparr>Name := ''b1'', AccountId := ''123'', IsPublic := True,
         Tags := [\<lparr>Key = ''env'', Value = Some ''prod''\<rparr>], LastSyncTime := Some 7\<rparr>],
      Some (Aggregate [Aggregate [TraceErr []
        (TraceErr [''failed to fetch bucket %q region'', ''b1''] (PlainErr ''timeout''))]]))"
  using region_failure_bucket_kept
    [of "ex_fetcher (ex_client (Inr [\<lparr>bucket_Name = Some ''b1''\<rparr>]) (Inl (PlainErr ''timeout'')))"
        ex_env "[\<lparr>bucket_Name = Some ''b1''\<rparr>]"
        "getBucketRegion (ex_client (Inr [\<lparr>bucket_Name = Some ''b1''\<rparr>]) (Inl (PlainErr ''timeout'')))"
        "\<lparr>bucket_Name = Some ''b1''\<rparr>" "[]"
        "TraceErr [''failed to fetch bucket %q region'', ''b1''] (PlainErr ''timeout'')" rev
        "\<lambda>e c. e # c" "\<lparr>S3Buckets = []\<rparr>" "[]"]
  by (simp add: ex_defs getS3BucketDetails_def Let_def failedRequests_zero_def s3Details_zero_def
      isS3BucketPolicyNotFound_def isS3BucketNoTagSet_def trace_Wrap_def aws_ToString_def
      collect_def mergeS3Protos_def proto_Clone_def sliceFilterPickFirst_def awsS3Bucket_def
      trace_NewAggregate_def AWSS3BucketV1_zero_def awsACLsToProtoACLs_def
      fetchS3Buckets_def listS3Buckets_def getBucketRegion_def bucket_task_def errgroup_Go_def)

text \<open>
  C8. Let the listing succeed, and let the tasks of the listed buckets reach the collector
  in any order. Every task function returns nil to the group, so the group's error stays
  nil and \<open>eG.Wait()\<close> has nothing to report; the only effect of a task on the
  accumulator is one call of \<open>collect\<close> with a snapshot; and \<open>fetchS3Buckets\<close>
  returns, after all tasks, one snapshot for every listed bucket and the aggregate of the
  errors of all tasks: the same snapshots and errors, up to order, as a sequential run,
  whichever tasks failed.
\<close>

theorem fetchS3Buckets_collects_all:
  assumes "listS3Buckets a env = Inr (buckets, getRegion)"
    and "mset (sched buckets) = mset buckets"
  shows "(\<forall>bucket st. snd (bucket_task a env getRegion (lastResult a) bucket st) = None) \<and>
    (\<forall>bucket. \<exists>s3 err. \<forall>st.
        fst (bucket_task a env getRegion (lastResult a) bucket st) = collect st (Some s3) err) \<and>
    snd (fold (\<lambda>bucket. errgroup_Go (bucket_task a env getRegion (lastResult a) bucket))
           (sched buckets) (\<lparr>s3s = [], errs = []\<rparr>, None)) = None \<and>
    (\<exists>outs es.
        fetchS3Buckets a env sched = (outs, trace_NewAggregate es) \<and>
        outs = concat (map (\<lambda>b. s3s (task_collected a env getRegion (lastResult a) b))
                 (sched buckets)) \<and>
        es = concat (map (\<lambda>b. errs (task_collected a env getRegion (lastResult a) b))
               (sched buckets)) \<and>
        length outs = length buckets \<and>
        mset outs =
          mset (concat (map (\<lambda>b. s3s (task_collected a env getRegion (lastResult a) b)) buckets)) \<and>
        mset es =
          mset (concat (map (\<lambda>b. errs (task_collected a env getRegion (lastResult a) b)) buckets)))"
proof -
  let ?tc = "task_collected a env getRegion (lastResult a)"
  have ret: "\<forall>bucket st. snd (bucket_task a env getRegion (lastResult a) bucket st) = None"
    by (simp add: bucket_task_append)
  have only: "\<forall>bucket. \<exists>s3 err. \<forall>st.
        fst (bucket_task a env getRegion (lastResult a) bucket st) = collect st (Some s3) err"
  proof
    fix bucket
    obtain s3 err where
      "\<forall>st. bucket_task a env getRegion (lastResult a) bucket st = (collect st (Some s3) err, None)"
      using bucket_task_collect by blast
    then have "\<forall>st. fst (bucket_task a env getRegion (lastResult a) bucket st) =
        collect st (Some s3) err"
      by simp
    then show "\<exists>s3 err. \<forall>st.
        fst (bucket_task a env getRegion (lastResult a) bucket st) = collect st (Some s3) err"
      by blast
  qed
  have wait: "snd (fold (\<lambda>bucket. errgroup_Go (bucket_task a env getRegion (lastResult a) bucket))
           (sched buckets) (\<lparr>s3s = [], errs = []\<rparr>, None)) = None"
    by (simp add: fold_bucket_tasks)
  have len: "length (concat (map (\<lambda>b. s3s (?tc b)) (sched buckets))) = length buckets"
    using length_concat_singletons [of "\<lambda>b. s3s (?tc b)" "sched buckets"]
      task_collected_one mset_eq_length [OF assms(2)] by simp
  have all: "\<exists>outs es.
        fetchS3Buckets a env sched = (outs, trace_NewAggregate es) \<and>
        outs = concat (map (\<lambda>b. s3s (?tc b)) (sched buckets)) \<and>
        es = concat (map (\<lambda>b. errs (?tc b)) (sched buckets)) \<and>
        length outs = length buckets \<and>
        mset outs = mset (concat (map (\<lambda>b. s3s (?tc b)) buckets)) \<and>
        mset es = mset (concat (map (\<lambda>b. errs (?tc b)) buckets))"
    using fetchS3Buckets_listed [OF assms(1), of sched] len
      mset_concat_map_cong [OF assms(2), of "\<lambda>b. s3s (?tc b)"]
      mset_concat_map_cong [OF assms(2), of "\<lambda>b. errs (?tc b)"]
    by simp
  from ret only wait all show ?thesis by (intro conjI)
qed

theorem fetchS3Buckets_collects_all_witness:
  "listS3Buckets
     (ex_fetcher (ex_client (Inr [\<lparr>bucket_Name = Some ''b1''\<rparr>, \<lparr>bucket_Name = Some ''b2''\<rparr>])
        (Inl (PlainErr ''timeout''))))
     ex_env =
     Inr ([\<lparr>bucket_Name = Some ''b1''\<rparr>, \<lparr>bucket_Name = Some ''b2''\<rparr>],
          getBucketRegion (ex_client (Inr [\<lparr>bucket_Name = Some ''b1''\<rparr>, \<lparr>bucket_Name = Some ''b2''\<rparr>])
            (Inl (PlainErr ''timeout'')))) \<and>
   mset (rev [\<lparr>bucket_Name = Some ''b1''\<rparr>, \<lparr>bucket_Name = Some ''b2''\<rparr>]) =
     mset [\<lparr>bucket_Name = Some ''b1''\<rparr>, \<lparr>bucket_Name = Some ''b2''\<rparr>] \<and>
   fetchS3Buckets
     (ex_fetcher (ex_client (Inr [\<lparr>bucket_Name = Some ''b1''\<rparr>, \<lparr>bucket_Name = Some ''b2''\<rparr>])
        (Inl (PlainErr ''timeout''))))
     ex_env rev =
     ([AWSS3BucketV1_zero\<lparr>Name := ''b2'', AccountId := ''123'', LastSyncTime := Some 7\<rparr>,
       AWSS3BucketV1_zero\<lparr>Name := ''b1'', AccountId := ''123'', IsPublic := True,
         Tags := [\<lparr>Key = ''env'', Value = Some ''prod''\<rparr>], LastSyncTime := Some 7\<rparr>],
      Some (Aggregate
        [Aggregate [TraceErr []
           (TraceErr [''failed to fetch bucket %q region'', ''b2''] (PlainErr ''timeout''))],
         Aggregate [TraceErr []
           (TraceErr [''failed to fetch bucket %q region'', ''b1''] (PlainErr ''timeout''))]]))"
  using fetchS3Buckets_collects_all
    [of "ex_fetcher (ex_client (Inr [\<lparr>bucket_Name = Some ''b1''\<rparr>, \<lparr>bucket_Name = Some ''b2''\<rparr>])
           (Inl (PlainErr ''timeout'')))"
        ex_env "[\<lparr>bucket_Name = Some ''b1''\<rparr>, \<lparr>bucket_Name = Some ''b2''\<rparr>]"
        "getBucketRegion (ex_client (Inr [\<lparr>bucket_Name = Some ''b1''\<rparr>, \<lparr>bucket_Name = Some ''b2''\<rparr>])
           (Inl (PlainErr ''timeout'')))" rev]
  by (simp add: ex_defs getS3BucketDetails_def Let_def failedRequests_zero_def s3Details_zero_def
      isS3BucketPolicyNotFound_def isS3BucketNoTagSet_def trace_Wrap_def aws_ToString_def
      collect_def mergeS3Protos_def proto_Clone_def sliceFilterPickFirst_def awsS3Bucket_def
      trace_NewAggregate_def AWSS3BucketV1_zero_def awsACLsToProtoACLs_def
      fetchS3Buckets_def listS3Buckets_def getBucketRegion_def bucket_task_def errgroup_Go_def)

section \<open>Properties of the Redshift Serverless plugin\<close>

text \<open>With the callback of the two collectors the pagination loop returns, whatever the
  source answers: the pages it has accumulated are the answers to the first requests, in
  the order of the requests, and there are at most \<open>M + 1\<close> of them for the cap \<open>M\<close>
  when the accumulator starts empty. A source whose every page announces a next one
  yields exactly that many.\<close>

lemma PagesWithContext_capped:
  "\<exists>qs err.
     PagesWithContext src
       (\<lambda>pages page lastPage. (let pages = pages @ [page] in (pages, length pages \<le> M))) i ps =
       Some (ps @ qs, err) \<and>
     length qs \<le> max 1 (Suc M - length ps) \<and>
     (\<forall>k < length qs. \<exists>m. src (i + k) = Page (qs ! k) m)"
proof (induction "Suc M - length ps" arbitrary: i ps rule: less_induct)
  case less
  let ?fn = "\<lambda>pages page lastPage. (let pages = pages @ [page] in (pages, length pages \<le> M))"
  show ?case
  proof (cases "src i")
    case (PageErr e)
    then have "PagesWithContext src ?fn i ps = Some (ps @ [], Some e)"
      by (subst PagesWithContext.simps) simp
    then show ?thesis by force
  next
    case (Page p hasNext)
    show ?thesis
    proof (cases "length (ps @ [p]) \<le> M \<and> hasNext")
      case False
      with Page have "PagesWithContext src ?fn i ps = Some (ps @ [p], None)"
        by (subst PagesWithContext.simps) (auto simp: Let_def)
      moreover have "\<forall>k < length [p]. \<exists>m. src (i + k) = Page ([p] ! k) m"
        using Page by simp
      moreover have "length [p] \<le> max 1 (Suc M - length ps)" by simp
      ultimately show ?thesis by blast
    next
      case True
      with Page have step: "PagesWithContext src ?fn i ps = PagesWithContext src ?fn (Suc i) (ps @ [p])"
        by (subst PagesWithContext.simps) (simp add: Let_def)
      from True have "Suc M - length (ps @ [p]) < Suc M - length ps" by auto
      from less [OF this, of "Suc i"] obtain qs err where
        r: "PagesWithContext src ?fn (Suc i) (ps @ [p]) = Some ((ps @ [p]) @ qs, err)"
        and l: "length qs \<le> max 1 (Suc M - length (ps @ [p]))"
        and a: "\<forall>k < length qs. \<exists>m. src (Suc i + k) = Page (qs ! k) m"
        by blast
      have "PagesWithContext src ?fn i ps = Some (ps @ (p # qs), err)"
        using step r by simp
      moreover have "length (p # qs) \<le> max 1 (Suc M - length ps)"
        using l True by auto
      moreover have "\<forall>k < length (p # qs). \<exists>m. src (i + k) = Page ((p # qs) ! k) m"
      proof (intro allI impI)
        fix k assume "k < length (p # qs)"
        then show "\<exists>m. src (i + k) = Page ((p # qs) ! k) m"
          using Page a by (cases k) auto
      qed
      ultimately show ?thesis by blast
    qed
  qed
qed

lemma PagesWithContext_endless:
  assumes "\<And>j. \<exists>p. src j = Page p True"
  shows "\<exists>qs.
     PagesWithContext src
       (\<lambda>pages page lastPage. (let pages = pages @ [page] in (pages, length pages \<le> M))) i ps =
       Some (ps @ qs, None) \<and>
     length qs = max 1 (Suc M - length ps)"
proof (induction "Suc M - length ps" arbitrary: i ps rule: less_induct)
  case less
  let ?fn = "\<lambda>pages page lastPage. (let pages = pages @ [page] in (pages, length pages \<le> M))"
  obtain p where Page: "src i = Page p True" using assms by blast
  show ?case
  proof (cases "length (ps @ [p]) \<le> M")
    case False
    with Page have "PagesWithContext src ?fn i ps = Some (ps @ [p], None)"
      by (subst PagesWithContext.simps) (auto simp: Let_def)
    moreover have "length [p] = max 1 (Suc M - length ps)" using False by auto
    ultimately show ?thesis by blast
  next
    case True
    with Page have step: "PagesWithContext src ?fn i ps = PagesWithContext src ?fn (Suc i) (ps @ [p])"
      by (subst PagesWithContext.simps) (simp add: Let_def)
    from True have "Suc M - length (ps @ [p]) < Suc M - length ps" by auto
    from less [OF this, of "Suc i"] obtain qs where
      r: "PagesWithContext src ?fn (Suc i) (ps @ [p]) = Some ((ps @ [p]) @ qs, None)"
      and l: "length qs = max 1 (Suc M - length (ps @ [p]))"
      by blast
    have "PagesWithContext src ?fn i ps = Some (ps @ (p # qs), None)"
      using step r by simp
    moreover have "length (p # qs) = max 1 (Suc M - length ps)"
      using l True by auto
    ultimately show ?thesis by blast
  qed
qed

lemma getRSSWorkgroups_returns:
  "\<exists>pages err.
     getRSSWorkgroups deps client = Some (concat pages, ConvertRequestFailureError deps err) \<and>
     length pages \<le> Suc (maxAWSPages deps) \<and>
     (\<forall>k < length pages. \<exists>m. ListWorkgroupsPages client k = Page (pages ! k) m)"
proof -
  obtain qs err where
    "PagesWithContext (ListWorkgroupsPages client)
       (\<lambda>pages page lastPage.
          (let pages = pages @ [page] in (pages, length pages \<le> maxAWSPages deps))) 0 [] =
       Some ([] @ qs, err)"
    and "length qs \<le> max 1 (Suc (maxAWSPages deps) - length ([] :: Workgroup list list))"
    and "\<forall>k < length qs. \<exists>m. ListWorkgroupsPages client (0 + k) = Page (qs ! k) m"
    using PagesWithContext_capped [of "ListWorkgroupsPages client" "maxAWSPages deps" 0 "[]"]
    by blast
  then show ?thesis
    by (auto simp: getRSSWorkgroups_def flatten_def)
qed

lemma getRSSVPCEndpoints_returns:
  "\<exists>pages err.
     getRSSVPCEndpoints deps client = Some (concat pages, ConvertRequestFailureError deps err) \<and>
     length pages \<le> Suc (maxAWSPages deps) \<and>
     (\<forall>k < length pages. \<exists>m. ListEndpointAccessPages client k = Page (pages ! k) m)"
proof -
  obtain qs err where
    "PagesWithContext (ListEndpointAccessPages client)
       (\<lambda>pages page lastPage.
          (let pages = pages @ [page] in (pages, length pages \<le> maxAWSPages deps))) 0 [] =
       Some ([] @ qs, err)"
    and "length qs \<le> max 1 (Suc (maxAWSPages deps) - length ([] :: EndpointAccess list list))"
    and "\<forall>k < length qs. \<exists>m. ListEndpointAccessPages client (0 + k) = Page (qs ! k) m"
    using PagesWithContext_capped [of "ListEndpointAccessPages client" "maxAWSPages deps" 0 "[]"]
    by blast
  then show ?thesis
    by (auto simp: getRSSVPCEndpoints_def flatten_def)
qed

lemma getRSSWorkgroups_endless:
  assumes "\<And>j. \<exists>p. ListWorkgroupsPages client j = Page p True"
  shows "\<exists>pages.
     getRSSWorkgroups deps client = Some (concat pages, ConvertRequestFailureError deps None) \<and>
     length pages = Suc (maxAWSPages deps)"
proof -
  obtain qs where
    "PagesWithContext (ListWorkgroupsPages client)
       (\<lambda>pages page lastPage.
          (let pages = pages @ [page] in (pages, length pages \<le> maxAWSPages deps))) 0 [] =
       Some ([] @ qs, None)"
    and "length qs = max 1 (Suc (maxAWSPages deps) - length ([] :: Workgroup list list))"
    using PagesWithContext_endless
      [of "ListWorkgroupsPages client" "maxAWSPages deps" 0 "[]"] assms
    by blast
  then show ?thesis
    by (auto simp: getRSSWorkgroups_def flatten_def)
qed

text \<open>
  C5. The collectors do return for every source, with the concatenation of the collected
  pages in arrival order (\<open>getRSSWorkgroups_returns\<close>,
  \<open>getRSSVPCEndpoints_returns\<close>), but the number of pages they accumulate is bounded
  by \<open>maxAWSPages + 1\<close>, not by \<open>maxAWSPages\<close>: the callback appends the page before it
  compares \<open>len(pages) <= maxAWSPages\<close>. With a cap of ten pages and a source of
  one-element pages that never signals completion, each collector returns eleven pages.
\<close>

theorem collectors_exceed_page_cap:
  "maxAWSPages (ex_deps ex_conv_ok) = 10 \<and>
   getRSSWorkgroups (ex_deps ex_conv_ok)
     (ex_rss_client (\<lambda>i. Page [ex_workgroup ''w'' ''available''] True)
        (\<lambda>i. Page [ex_endpoint ''e'' ''w'' ''available''] True)) =
     Some (replicate 11 (ex_workgroup ''w'' ''available''), None) \<and>
   getRSSVPCEndpoints (ex_deps ex_conv_ok)
     (ex_rss_client (\<lambda>i. Page [ex_workgroup ''w'' ''available''] True)
        (\<lambda>i. Page [ex_endpoint ''e'' ''w'' ''available''] True)) =
     Some (replicate 11 (ex_endpoint ''e'' ''w'' ''available''), None)"
  by (simp add: getRSSWorkgroups_def getRSSVPCEndpoints_def ex_deps_def ex_rss_client_def
      PagesWithContext.simps Let_def flatten_def eval_nat_numeral)

text \<open>The loop over the endpoints: each endpoint adds its own databases and log records
  to what the endpoints before it have produced.\<close>

lemma findWorkgroupWithName_Some:
  "findWorkgroupWithName workgroups name = Some wg \<Longrightarrow>
     wg \<in> set workgroups \<and> aws_StringValue (WorkgroupName (wt_Workgroup wg)) = name"
  by (induction workgroups) (auto split: if_splits)

lemma findWorkgroupWithName_None:
  "findWorkgroupWithName workgroups name = None \<longleftrightarrow>
     (\<forall>wg \<in> set workgroups. aws_StringValue (WorkgroupName (wt_Workgroup wg)) \<noteq> name)"
  by (induction workgroups) auto

lemma endpoint_step_append:
  "endpoint_step deps workgroups endpoint (databases, logs) =
     (databases @ fst (endpoint_step deps workgroups endpoint ([], [])),
      logs @ snd (endpoint_step deps workgroups endpoint ([], [])))"
  by (simp add: endpoint_step_def split: option.splits sum.splits)

lemma fold_endpoint_step:
  "fold (endpoint_step deps workgroups) endpoints (databases, logs) =
     (databases @ concat (map (\<lambda>e. fst (endpoint_step deps workgroups e ([], []))) endpoints),
      logs @ concat (map (\<lambda>e. snd (endpoint_step deps workgroups e ([], []))) endpoints))"
proof (induction endpoints arbitrary: databases logs)
  case Nil
  show ?case by simp
next
  case (Cons e es)
  show ?case
    by (simp add: endpoint_step_append [of deps workgroups e databases logs] Cons.IH)
qed

lemma endpoint_step_orphan:
  assumes "findWorkgroupWithName workgroups (aws_StringValue (endpoint_WorkgroupName endpoint)) = None"
  shows "endpoint_step deps workgroups endpoint ([], []) =
     ([], [(DEBUG, ''Could not find matching workgroup for Redshift Serverless endpoint'',
            [(''endpoint'', StrAttr (aws_StringValue (EndpointName endpoint)))])])"
  using assms by (simp add: endpoint_step_def)

lemma concat_map_filter_nonempty:
  assumes "\<And>x. x \<in> set xs \<Longrightarrow> \<not> P x \<Longrightarrow> f x = []"
  shows "concat (map f (filter P xs)) = concat (map f xs)"
  using assms by (induction xs) auto

text \<open>
  C7, as the code has it. Let the listing of the endpoints succeed. Then
  \<open>getDatabasesFromVPCEndpoints\<close> returns no error, and for every listed endpoint: if
  \<open>findWorkgroupWithName\<close> finds a workgroup of the referenced name (the first one of
  that name among the fetched workgroups), the endpoint is available and the constructor
  of the database resource succeeds on the endpoint, that workgroup and that workgroup's
  tags, then the constructed database is in the output; if no fetched workgroup has the
  referenced name, the debug record for the endpoint is in the log, and the databases
  returned are those of the run over the endpoints that do have a workgroup.
\<close>

theorem getDatabasesFromVPCEndpoints_endpoints:
  assumes "getRSSVPCEndpoints deps client = Some (endpoints, None)"
  shows "\<exists>dbs logs.
     getDatabasesFromVPCEndpoints deps workgroups client = Some ((dbs, None), logs) \<and>
     (\<forall>endpoint \<in> set endpoints. \<forall>wg db.
        findWorkgroupWithName workgroups (aws_StringValue (endpoint_WorkgroupName endpoint)) = Some wg \<and>
        IsResourceAvailable deps (Inr endpoint) (EndpointStatus endpoint) \<and>
        NewDatabaseFromRedshiftServerlessVPCEndpoint deps endpoint (wt_Workgroup wg) (wt_Tags wg) = Inr db
        \<longrightarrow> db \<in> set dbs) \<and>
     (\<forall>endpoint \<in> set endpoints.
        (\<forall>wg \<in> set workgroups.
           aws_StringValue (WorkgroupName (wt_Workgroup wg)) \<noteq>
           aws_StringValue (endpoint_WorkgroupName endpoint))
        \<longrightarrow> (DEBUG, ''Could not find matching workgroup for Redshift Serverless endpoint'',
             [(''endpoint'', StrAttr (aws_StringValue (EndpointName endpoint)))]) \<in> set logs) \<and>
     dbs = fst (fold (endpoint_step deps workgroups)
                 (filter (\<lambda>e. \<exists>wg \<in> set workgroups.
                            aws_StringValue (WorkgroupName (wt_Workgroup wg)) =
                            aws_StringValue (endpoint_WorkgroupName e)) endpoints) ([], [])) \<and>
     (\<forall>name wg. findWorkgroupWithName workgroups name = Some wg \<longrightarrow>
        wg \<in> set workgroups \<and> aws_StringValue (WorkgroupName (wt_Workgroup wg)) = name) \<and>
     (\<forall>name. (\<exists>wg \<in> set workgroups. aws_StringValue (WorkgroupName (wt_Workgroup wg)) = name) \<longrightarrow>
        findWorkgroupWithName workgroups name \<noteq> None)"
proof -
  let ?step = "\<lambda>e. endpoint_step deps workgroups e ([], [])"
  let ?dbs = "concat (map (\<lambda>e. fst (?step e)) endpoints)"
  let ?logs = "concat (map (\<lambda>e. snd (?step e)) endpoints)"
  let ?has = "\<lambda>e. \<exists>wg \<in> set workgroups.
                            aws_StringValue (WorkgroupName (wt_Workgroup wg)) =
                            aws_StringValue (endpoint_WorkgroupName e)"
  have run: "getDatabasesFromVPCEndpoints deps workgroups client = Some ((?dbs, None), ?logs)"
    using assms fold_endpoint_step [of deps workgroups endpoints "[]" "[]"]
    by (simp add: getDatabasesFromVPCEndpoints_def)
  have present: "\<forall>endpoint \<in> set endpoints. \<forall>wg db.
        findWorkgroupWithName workgroups (aws_StringValue (endpoint_WorkgroupName endpoint)) = Some wg \<and>
        IsResourceAvailable deps (Inr endpoint) (EndpointStatus endpoint) \<and>
        NewDatabaseFromRedshiftServerlessVPCEndpoint deps endpoint (wt_Workgroup wg) (wt_Tags wg) = Inr db
        \<longrightarrow> db \<in> set ?dbs"
  proof (intro ballI allI impI)
    fix endpoint wg db
    assume e: "endpoint \<in> set endpoints"
      and h: "findWorkgroupWithName workgroups (aws_StringValue (endpoint_WorkgroupName endpoint)) = Some wg \<and>
        IsResourceAvailable deps (Inr endpoint) (EndpointStatus endpoint) \<and>
        NewDatabaseFromRedshiftServerlessVPCEndpoint deps endpoint (wt_Workgroup wg) (wt_Tags wg) = Inr db"
    from h have "?step endpoint = ([db], [])"
      by (simp add: endpoint_step_def)
    with e show "db \<in> set ?dbs" by force
  qed
  have orphan: "\<forall>endpoint \<in> set endpoints.
        (\<forall>wg \<in> set workgroups.
           aws_StringValue (WorkgroupName (wt_Workgroup wg)) \<noteq>
           aws_StringValue (endpoint_WorkgroupName endpoint))
        \<longrightarrow> (DEBUG, ''Could not find matching workgroup for Redshift Serverless endpoint'',
             [(''endpoint'', StrAttr (aws_StringValue (EndpointName endpoint)))]) \<in> set ?logs"
  proof (intro ballI impI)
    fix endpoint
    assume e: "endpoint \<in> set endpoints"
      and "\<forall>wg \<in> set workgroups.
           aws_StringValue (WorkgroupName (wt_Workgroup wg)) \<noteq>
           aws_StringValue (endpoint_WorkgroupName endpoint)"
    then have "findWorkgroupWithName workgroups (aws_StringValue (endpoint_WorkgroupName endpoint)) = None"
      by (simp add: findWorkgroupWithName_None)
    then have "snd (?step endpoint) =
       [(DEBUG, ''Could not find matching workgroup for Redshift Serverless endpoint'',
            [(''endpoint'', StrAttr (aws_StringValue (EndpointName endpoint)))])]"
      by (simp add: endpoint_step_orphan)
    with e show "(DEBUG, ''Could not find matching workgroup for Redshift Serverless endpoint'',
             [(''endpoint'', StrAttr (aws_StringValue (EndpointName endpoint)))]) \<in> set ?logs"
      by force
  qed
  have "fst (?step e) = []" if "\<not> ?has e" for e
  proof -
    from that have "findWorkgroupWithName workgroups (aws_StringValue (endpoint_WorkgroupName e)) = None"
      by (simp add: findWorkgroupWithName_None)
    then show ?thesis by (simp add: endpoint_step_orphan)
  qed
  then have "concat (map (\<lambda>e. fst (?step e)) (filter ?has endpoints)) = ?dbs"
    by (intro concat_map_filter_nonempty) blast
  then have rest: "?dbs = fst (fold (endpoint_step deps workgroups) (filter ?has endpoints) ([], []))"
    by (simp add: fold_endpoint_step)
  have f1: "\<forall>name wg. findWorkgroupWithName workgroups name = Some wg \<longrightarrow>
        wg \<in> set workgroups \<and> aws_StringValue (WorkgroupName (wt_Workgroup wg)) = name"
    using findWorkgroupWithName_Some by blast
  have f2: "\<forall>name. (\<exists>wg \<in> set workgroups. aws_StringValue (WorkgroupName (wt_Workgroup wg)) = name) \<longrightarrow>
        findWorkgroupWithName workgroups name \<noteq> None"
    by (simp add: findWorkgroupWithName_None)
  show ?thesis
    apply (rule exI [of _ "?dbs"])
    apply (rule exI [of _ "?logs"])
    apply (intro conjI)
         apply (rule run)
        apply (rule present)
       apply (rule orphan)
      apply (rule rest)
     apply (rule f1)
    apply (rule f2)
    done
qed

theorem getDatabasesFromVPCEndpoints_endpoints_witness:
  "getRSSVPCEndpoints (ex_deps ex_conv_ok)
     (ex_rss_client (\<lambda>i. Page [] False)
        (\<lambda>i. Page [ex_endpoint ''e1'' ''w1'' ''available'', ex_endpoint ''e2'' ''w2'' ''available'']
                False)) =
     Some ([ex_endpoint ''e1'' ''w1'' ''available'', ex_endpoint ''e2'' ''w2'' ''available''], None) \<and>
   findWorkgroupWithName
     [\<lparr>wt_Workgroup = ex_workgroup ''w1'' ''available'', wt_Tags = [ex_tag]\<rparr>] ''w1'' =
     Some \<lparr>wt_Workgroup = ex_workgroup ''w1'' ''available'', wt_Tags = [ex_tag]\<rparr> \<and>
   findWorkgroupWithName
     [\<lparr>wt_Workgroup = ex_workgroup ''w1'' ''available'', wt_Tags = [ex_tag]\<rparr>] ''w2'' = None \<and>
   getDatabasesFromVPCEndpoints (ex_deps ex_conv_ok)
     [\<lparr>wt_Workgroup = ex_workgroup ''w1'' ''available'', wt_Tags = [ex_tag]\<rparr>]
     (ex_rss_client (\<lambda>i. Page [] False)
        (\<lambda>i. Page [ex_endpoint ''e1'' ''w1'' ''available'', ex_endpoint ''e2'' ''w2'' ''available'']
                False)) =
     Some (([(''e1'', [ex_tag])], None),
           [(DEBUG, ''Could not find matching workgroup for Redshift Serverless endpoint'',
             [(''endpoint'', StrAttr ''e2'')])])"
  using getDatabasesFromVPCEndpoints_endpoints
    [of "ex_deps ex_conv_ok"
        "ex_rss_client (\<lambda>i. Page [] False)
           (\<lambda>i. Page [ex_endpoint ''e1'' ''w1'' ''available'', ex_endpoint ''e2'' ''w2'' ''available'']
                   False)"
        "[ex_endpoint ''e1'' ''w1'' ''available'', ex_endpoint ''e2'' ''w2'' ''available'']"
        "[\<lparr>wt_Workgroup = ex_workgroup ''w1'' ''available'', wt_Tags = [ex_tag]\<rparr>]"]
  by (simp add: getDatabasesFromVPCEndpoints_def getRSSVPCEndpoints_def PagesWithContext.simps
      Let_def flatten_def endpoint_step_def aws_StringValue_def ex_deps_def ex_conv_ok_def
      ex_rss_client_def ex_endpoint_def ex_workgroup_def)

text \<open>The claim C7 as stated fails where the constructor of the database resource returns
  an error: the workgroup is found and the endpoint is available, but the endpoint is
  skipped with an info record and the output has no database for it.\<close>

theorem getDatabasesFromVPCEndpoints_conversion_failure:
  "findWorkgroupWithName
     [\<lparr>wt_Workgroup = ex_workgroup ''w1'' ''available'', wt_Tags = [ex_tag]\<rparr>]
     (aws_StringValue (endpoint_WorkgroupName (ex_endpoint ''e1'' ''w1'' ''available''))) =
     Some \<lparr>wt_Workgroup = ex_workgroup ''w1'' ''available'', wt_Tags = [ex_tag]\<rparr> \<and>
   IsResourceAvailable (ex_deps ex_conv_fails) (Inr (ex_endpoint ''e1'' ''w1'' ''available''))
     (EndpointStatus (ex_endpoint ''e1'' ''w1'' ''available'')) \<and>
   getDatabasesFromVPCEndpoints (ex_deps ex_conv_fails)
     [\<lparr>wt_Workgroup = ex_workgroup ''w1'' ''available'', wt_Tags = [ex_tag]\<rparr>]
     (ex_rss_client (\<lambda>i. Page [] False)
        (\<lambda>i. Page [ex_endpoint ''e1'' ''w1'' ''available''] False)) =
     Some (([], None),
           [(INFO, ''Could not convert Redshift Serverless endpoint to database resource'',
             [(''endpoint'', StrAttr ''e1''),
              (''error'', ErrAttr (PlainErr ''missing endpoint address''))])])"
  by (simp add: getDatabasesFromVPCEndpoints_def getRSSVPCEndpoints_def PagesWithContext.simps
      Let_def flatten_def endpoint_step_def aws_StringValue_def ex_deps_def ex_conv_fails_def
      ex_rss_client_def ex_endpoint_def ex_workgroup_def)

text \<open>The claim C4 as stated fails for the listing of the VPC endpoints: when it fails,
  \<open>GetDatabases\<close> logs the error and returns the databases of the workgroups with a nil
  error.\<close>

theorem GetDatabases_endpoint_listing_failure:
  "ListEndpointAccessPages
     (ex_rss_client (\<lambda>i. Page [ex_workgroup ''w1'' ''available''] False)
        (\<lambda>i. PageErr (PlainErr ''throttled''))) 0 = PageErr (PlainErr ''throttled'') \<and>
   getRSSVPCEndpoints (ex_deps ex_conv_ok)
     (ex_rss_client (\<lambda>i. Page [ex_workgroup ''w1'' ''available''] False)
        (\<lambda>i. PageErr (PlainErr ''throttled''))) = Some ([], Some (PlainErr ''throttled'')) \<and>
   GetDatabases (ex_deps ex_conv_ok)
     (ex_cfg (ex_rss_client (\<lambda>i. Page [ex_workgroup ''w1'' ''available''] False)
        (\<lambda>i. PageErr (PlainErr ''throttled'')))) =
     Some (([(''w1'', [ex_tag])], None),
           [(WARN, ''Failed to get Redshift Serverless VPC endpoints'',
             [(''error'', ErrAttr (TraceErr [] (PlainErr ''throttled'')))])])"
  by (simp add: GetDatabases_def getDatabasesFromWorkgroups_def getRSSWorkgroups_def
      getDatabasesFromVPCEndpoints_def getRSSVPCEndpoints_def PagesWithContext.simps
      Let_def flatten_def workgroup_step_def getRSSResourceTags_def aws_StringValue_def
      trace_Wrap_def ex_deps_def ex_conv_ok_def ex_rss_client_def ex_workgroup_def ex_cfg_def)

text \<open>
  C4, as the code has it. A failure to create the client or to list the workgroups ends
  \<open>GetDatabases\<close> with no database and the wrapped error, and a failure to list the
  buckets ends \<open>fetchS3Buckets\<close> with the previous result and the wrapped error. A
  failure to list the VPC endpoints does not end the cycle: \<open>GetDatabases\<close> logs it (at
  debug level when access is denied, else as a warning) and returns the databases of the
  workgroups with a nil error.
\<close>

theorem listing_failures:
  "(GetAWSRedshiftServerlessClient cfg (Region cfg) = Inl e \<longrightarrow>
      GetDatabases deps cfg = Some (([], Some (trace_Wrap e [])), [])) \<and>
   (GetAWSRedshiftServerlessClient cfg (Region cfg) = Inr client \<and>
    getRSSWorkgroups deps client = Some (ws, Some e) \<longrightarrow>
      GetDatabases deps cfg = Some (([], Some (trace_Wrap (trace_Wrap e []) [])), [])) \<and>
   (GetAWSRedshiftServerlessClient cfg (Region cfg) = Inr client \<and>
    getDatabasesFromWorkgroups deps client = Some ((dbs, wgs, None), logs) \<and> wgs \<noteq> [] \<and>
    getRSSVPCEndpoints deps client = Some (eps, Some e) \<longrightarrow>
      GetDatabases deps cfg =
        Some ((dbs, None),
              logs @
              [if IsAccessDenied deps (trace_Wrap e [])
               then (DEBUG, ''No permission to get Redshift Serverless VPC endpoints'',
                     [(''error'', ErrAttr (trace_Wrap e []))])
               else (WARN, ''Failed to get Redshift Serverless VPC endpoints'',
                     [(''error'', ErrAttr (trace_Wrap e []))])])) \<and>
   (listS3Buckets a env = Inl e \<longrightarrow>
      fetchS3Buckets a env sched = (S3Buckets (lastResult a), Some (trace_Wrap e [])))"
  by (auto simp: GetDatabases_def getDatabasesFromWorkgroups_def getDatabasesFromVPCEndpoints_def
      fetchS3Buckets_listS3Buckets_error)

theorem listing_failures_witness:
  "(GetAWSRedshiftServerlessClient
      \<lparr>Region = ''us-east-1'',
       GetAWSRedshiftServerlessClient = (\<lambda>region. Inl (PlainErr ''no credentials''))\<rparr>
      ''us-east-1'' = Inl (PlainErr ''no credentials'') \<and>
    GetDatabases (ex_deps ex_conv_ok)
      \<lparr>Region = ''us-east-1'',
       GetAWSRedshiftServerlessClient = (\<lambda>region. Inl (PlainErr ''no credentials''))\<rparr> =
      Some (([], Some (TraceErr [] (PlainErr ''no credentials''))), [])) \<and>
   (getRSSWorkgroups (ex_deps ex_conv_ok)
      (ex_rss_client (\<lambda>i. PageErr (PlainErr ''throttled'')) (\<lambda>i. Page [] False)) =
      Some ([], Some (PlainErr ''throttled'')) \<and>
    GetDatabases (ex_deps ex_conv_ok)
      (ex_cfg (ex_rss_client (\<lambda>i. PageErr (PlainErr ''throttled'')) (\<lambda>i. Page [] False))) =
      Some (([], Some (TraceErr [] (TraceErr [] (PlainErr ''throttled'')))), [])) \<and>
   (getDatabasesFromWorkgroups (ex_deps ex_conv_ok)
      (ex_rss_client (\<lambda>i. Page [ex_workgroup ''w1'' ''available''] False)
         (\<lambda>i. PageErr (PlainErr ''throttled''))) =
      Some (([(''w1'', [ex_tag])],
             [\<lparr>wt_Workgroup = ex_workgroup ''w1'' ''available'', wt_Tags = [ex_tag]\<rparr>], None), []) \<and>
    getRSSVPCEndpoints (ex_deps ex_conv_ok)
      (ex_rss_client (\<lambda>i. Page [ex_workgroup ''w1'' ''available''] False)
         (\<lambda>i. PageErr (PlainErr ''throttled''))) = Some ([], Some (PlainErr ''throttled'')) \<and>
    GetDatabases (ex_deps ex_conv_ok)
      (ex_cfg (ex_rss_client (\<lambda>i. Page [ex_workgroup ''w1'' ''available''] False)
         (\<lambda>i. PageErr (PlainErr ''throttled'')))) =
      Some (([(''w1'', [ex_tag])], None),
            [(WARN, ''Failed to get Redshift Serverless VPC endpoints'',
              [(''error'', ErrAttr (TraceErr [] (PlainErr ''throttled'')))])])) \<and>
   (listS3Buckets (ex_fetcher (ex_client (Inl (PlainErr ''timeout'')) (Inl (PlainErr ''x''))))
      ex_env = Inl (TraceErr [] (PlainErr ''timeout'')) \<and>
    fetchS3Buckets (ex_fetcher (ex_client (Inl (PlainErr ''timeout'')) (Inl (PlainErr ''x''))))
      ex_env rev = ([ex_prior], Some (TraceErr [] (TraceErr [] (PlainErr ''timeout'')))))"
proof -
  let ?deps = "ex_deps ex_conv_ok"
  let ?cfg1 = "\<lparr>Region = ''us-east-1'',
       GetAWSRedshiftServerlessClient = (\<lambda>region. Inl (PlainErr ''no credentials''))\<rparr>"
  let ?c2 = "ex_rss_client (\<lambda>i. PageErr (PlainErr ''throttled'')) (\<lambda>i. Page [] False)"
  let ?c3 = "ex_rss_client (\<lambda>i. Page [ex_workgroup ''w1'' ''available''] False)
         (\<lambda>i. PageErr (PlainErr ''throttled''))"
  let ?a = "ex_fetcher (ex_client (Inl (PlainErr ''timeout'')) (Inl (PlainErr ''x'')))"
  have h1: "GetAWSRedshiftServerlessClient ?cfg1 (Region ?cfg1) = Inl (PlainErr ''no credentials'')"
    by simp
  have r1: "GetDatabases ?deps ?cfg1 = Some (([], Some (trace_Wrap (PlainErr ''no credentials'') [])), [])"
    by (rule listing_failures [THEN conjunct1, THEN mp, OF h1])
  have h2: "GetAWSRedshiftServerlessClient (ex_cfg ?c2) (Region (ex_cfg ?c2)) = Inr ?c2 \<and>
      getRSSWorkgroups ?deps ?c2 = Some ([], Some (PlainErr ''throttled''))"
    by (simp add: ex_cfg_def getRSSWorkgroups_def PagesWithContext.simps ex_rss_client_def
        ex_deps_def flatten_def)
  have r2: "GetDatabases ?deps (ex_cfg ?c2) =
      Some (([], Some (trace_Wrap (trace_Wrap (PlainErr ''throttled'') []) [])), [])"
    by (rule listing_failures [THEN conjunct2, THEN conjunct1, THEN mp, OF h2])
  have h3: "GetAWSRedshiftServerlessClient (ex_cfg ?c3) (Region (ex_cfg ?c3)) = Inr ?c3 \<and>
      getDatabasesFromWorkgroups ?deps ?c3 =
        Some (([(''w1'', [ex_tag])],
             [\<lparr>wt_Workgroup = ex_workgroup ''w1'' ''available'', wt_Tags = [ex_tag]\<rparr>], None), []) \<and>
      [\<lparr>wt_Workgroup = ex_workgroup ''w1'' ''available'', wt_Tags = [ex_tag]\<rparr>] \<noteq> [] \<and>
      getRSSVPCEndpoints ?deps ?c3 = Some ([], Some (PlainErr ''throttled''))"
    by (simp add: ex_cfg_def getDatabasesFromWorkgroups_def getRSSWorkgroups_def
        getRSSVPCEndpoints_def PagesWithContext.simps ex_rss_client_def ex_deps_def flatten_def
        workgroup_step_def getRSSResourceTags_def aws_StringValue_def ex_workgroup_def Let_def)
  have r3: "GetDatabases ?deps (ex_cfg ?c3) =
        Some (([(''w1'', [ex_tag])], None),
              [] @
              [if IsAccessDenied ?deps (trace_Wrap (PlainErr ''throttled'') [])
               then (DEBUG, ''No permission to get Redshift Serverless VPC endpoints'',
                     [(''error'', ErrAttr (trace_Wrap (PlainErr ''throttled'') []))])
               else (WARN, ''Failed to get Redshift Serverless VPC endpoints'',
                     [(''error'', ErrAttr (trace_Wrap (PlainErr ''throttled'') []))])])"
    by (rule listing_failures [THEN conjunct2, THEN conjunct2, THEN conjunct1, THEN mp, OF h3])
  have h4: "listS3Buckets ?a ex_env = Inl (trace_Wrap (PlainErr ''timeout'') [])"
    by (simp add: listS3Buckets_def ex_fetcher_def ex_client_def Let_def)
  have r4: "fetchS3Buckets ?a ex_env rev =
      (S3Buckets (lastResult ?a), Some (trace_Wrap (trace_Wrap (PlainErr ''timeout'') []) []))"
    by (rule listing_failures [THEN conjunct2, THEN conjunct2, THEN conjunct2, THEN mp, OF h4])
  show ?thesis
    using h1 r1 h2 r2 h3 r3 h4 r4
    by (simp add: trace_Wrap_def ex_deps_def ex_fetcher_def)
qed

end
